theory Spec2Isabelle
  imports Main "HOL-Library.Sublist" "HOL-Library.Word"
begin

section \<open>Python values used by the agent\<close>

text \<open>
  Exceptions are values: every function that can raise returns \<open>error + 'a\<close>, with
  \<open>Inl\<close> carrying the exception. The message of a \<open>RuntimeError\<close> is kept, since
  the commands are told apart by it; the argument of a \<open>KeyError\<close> or
  \<open>NameError\<close> is the missing key or name. \<open>EngineError\<close> stands for
  whatever a call into the instrumentation engine raises.
\<close>

datatype error =
    ValueError
  | KeyError string
  | NameError string
  | UnboundLocalError string
  | AttributeError
  | OverflowError
  | TypeError
  | IndexError
  | EngineError
  | RuntimeError string

type_synonym byte = "8 word"

text \<open>\<open>sub in s\<close> on Python strings: \<open>sub\<close> occurs in \<open>s\<close> as a contiguous run.\<close>

fun str_in :: "string \<Rightarrow> string \<Rightarrow> bool" where
  "str_in sub [] = (sub = [])"
| "str_in sub (c # cs) = (prefix sub (c # cs) \<or> str_in sub cs)"

definition startswith :: "string \<Rightarrow> string \<Rightarrow> bool" where
  "startswith s p = prefix p s"

definition endswith :: "string \<Rightarrow> string \<Rightarrow> bool" where
  "endswith s p = suffix p s"


section \<open>Python strings, integers and dynamic values\<close>

definition digit_chars :: string where
  "digit_chars = ''0123456789abcdefghijklmnopqrstuvwxyz''"

definition digit_val :: "char \<Rightarrow> nat option" where
  "digit_val c =
     map_of (zip (digit_chars @ ''ABCDEFGHIJKLMNOPQRSTUVWXYZ'')
                 ([0, 1, 2, 3, 4, 5, 6, 7, 8, 9, 10, 11, 12, 13, 14, 15, 16, 17, 18, 19, 20, 21, 22,
                   23, 24, 25, 26, 27, 28, 29, 30, 31, 32, 33, 34, 35]
                  @ [10, 11, 12, 13, 14, 15, 16, 17, 18, 19, 20, 21, 22, 23, 24, 25, 26, 27, 28, 29,
                     30, 31, 32, 33, 34, 35])) c"

fun str_nat :: "nat \<Rightarrow> string" where
  "str_nat n = (if n < 10 then [digit_chars ! n] else str_nat (n div 10) @ [digit_chars ! (n mod 10)])"

declare str_nat.simps [simp del]

fun hex_nat :: "nat \<Rightarrow> string" where
  "hex_nat n = (if n < 16 then [digit_chars ! n] else hex_nat (n div 16) @ [digit_chars ! (n mod 16)])"

declare hex_nat.simps [simp del]

text \<open>\<open>str(n)\<close>, \<open>hex(n)\<close> and \<open>'{:x}'.format(n)\<close> on a Python int.\<close>

definition str_int :: "int \<Rightarrow> string" where
  "str_int n = (if n < 0 then ''-'' @ str_nat (nat (- n)) else str_nat (nat n))"

definition hex :: "int \<Rightarrow> string" where
  "hex n = (if n < 0 then ''-0x'' @ hex_nat (nat (- n)) else ''0x'' @ hex_nat (nat n))"

definition format_x :: "int \<Rightarrow> string" where
  "format_x n = (if n < 0 then ''-'' @ hex_nat (nat (- n)) else hex_nat (nat n))"

text \<open>
  \<open>int(s, base)\<close> for \<open>base\<close> 0, 10 or 16, on ASCII text: surrounding whitespace is
  stripped, a sign may lead, base 0 reads the prefix \<open>0x\<close>, \<open>0o\<close> or \<open>0b\<close> and
  refuses a non-zero decimal with a leading zero, and single underscores may separate
  digits. Anything else is a \<open>ValueError\<close>.
\<close>

definition is_space :: "char \<Rightarrow> bool" where
  "is_space c =
     (c \<in> set [CHR '' '', CHR 0x09, CHR 0x0A, CHR 0x0B, CHR 0x0C, CHR 0x0D,
                CHR 0x1C, CHR 0x1D, CHR 0x1E, CHR 0x1F])"

definition strip :: "string \<Rightarrow> string" where
  "strip s = rev (dropWhile is_space (rev (dropWhile is_space s)))"

fun parse_digits :: "nat \<Rightarrow> string \<Rightarrow> nat \<Rightarrow> bool \<Rightarrow> nat option" where
  "parse_digits b [] acc prev = (if prev then Some acc else None)"
| "parse_digits b (c # cs) acc prev =
     (if c = CHR ''_'' then (if prev \<and> cs \<noteq> [] then parse_digits b cs acc False else None)
      else (case digit_val c of
              None \<Rightarrow> None
            | Some d \<Rightarrow> if d < b then parse_digits b cs (acc * b + d) True else None))"

definition split_sign :: "string \<Rightarrow> bool \<times> string" where
  "split_sign s =
     (case s of
        [] \<Rightarrow> (False, [])
      | c # cs \<Rightarrow>
          if c = CHR ''-'' then (True, cs)
          else if c = CHR ''+'' then (False, cs)
          else (False, s))"

definition base_prefix :: "string \<Rightarrow> (nat \<times> string) option" where
  "base_prefix s =
     (case s of
        c0 # c1 # rest \<Rightarrow>
          if c0 \<noteq> CHR ''0'' then None
          else if c1 = CHR ''x'' \<or> c1 = CHR ''X'' then Some (16, rest)
          else if c1 = CHR ''o'' \<or> c1 = CHR ''O'' then Some (8, rest)
          else if c1 = CHR ''b'' \<or> c1 = CHR ''B'' then Some (2, rest)
          else None
      | _ \<Rightarrow> None)"

definition drop_underscore :: "string \<Rightarrow> string" where
  "drop_underscore s = (case s of [] \<Rightarrow> [] | c # cs \<Rightarrow> if c = CHR ''_'' then cs else s)"

definition py_int :: "string \<Rightarrow> nat \<Rightarrow> error + int" where
  "py_int s b =
     (let (neg, body) = split_sign (strip s);
          mag =
            (case base_prefix body of
               Some (pb, rest) \<Rightarrow>
                 if b = 0 \<or> b = pb then parse_digits pb (drop_underscore rest) 0 False
                 else parse_digits b body 0 False
             | None \<Rightarrow>
                 if b = 0 then
                   (case parse_digits 10 body 0 False of
                      None \<Rightarrow> None
                    | Some n \<Rightarrow> if n \<noteq> 0 \<and> take 1 body = ''0'' then None else Some n)
                 else parse_digits b body 0 False)
      in case mag of
           None \<Rightarrow> Inl ValueError
         | Some n \<Rightarrow> Inr (if neg then - int n else int n))"

text \<open>\<open>s.split(sep)\<close> with a one-character separator.\<close>

fun split_on :: "char \<Rightarrow> string \<Rightarrow> string list" where
  "split_on sep [] = [[]]"
| "split_on sep (c # cs) =
     (if c = sep then [] # split_on sep cs
      else (case split_on sep cs of
              [] \<Rightarrow> [[c]]
            | w # ws \<Rightarrow> (c # w) # ws))"

text \<open>
  The values the agent passes around without a static type: \<open>None\<close>, booleans, ints
  and strings. \<open>py_str\<close> is \<open>str(v)\<close>, which is also what \<open>'{}'.format(v)\<close> and a
  named field of \<open>str.format\<close> insert.
\<close>

datatype pyval = PNone | PBool bool | PInt int | PStr string

fun py_str :: "pyval \<Rightarrow> string" where
  "py_str PNone = ''None''"
| "py_str (PBool b) = (if b then ''True'' else ''False'')"
| "py_str (PInt n) = str_int n"
| "py_str (PStr s) = s"

text \<open>
  \<open>a == b\<close> on dynamic values; a boolean equals the int 0 or 1 it stands for. The
  same comparison decides whether a key is in a dictionary.
\<close>

fun py_eq :: "pyval \<Rightarrow> pyval \<Rightarrow> bool" where
  "py_eq (PBool b) (PInt n) = ((if b then 1 else 0) = n)"
| "py_eq (PInt n) (PBool b) = ((if b then 1 else 0) = n)"
| "py_eq a b = (a = b)"

text \<open>
  \<open>pattern.format(name=value, ...)\<close> for the path patterns, whose replacement fields
  are all of the form \<open>{name}\<close>: fields are replaced from left to right, a field
  without a keyword argument raises \<open>KeyError\<close>, surplus keyword arguments are
  ignored. The second argument is the field name read so far, when inside braces.
\<close>

fun str_format_from :: "string \<Rightarrow> string option \<Rightarrow> (string \<times> string) list \<Rightarrow> error + string" where
  "str_format_from [] None kw = Inr []"
| "str_format_from [] (Some acc) kw = Inl ValueError"
| "str_format_from (c # cs) None kw =
     (if c = CHR ''{'' then str_format_from cs (Some []) kw
      else (case str_format_from cs None kw of
              Inl e \<Rightarrow> Inl e
            | Inr s \<Rightarrow> Inr (c # s)))"
| "str_format_from (c # cs) (Some acc) kw =
     (if c = CHR ''}'' then
        (case map_of kw (rev acc) of
           None \<Rightarrow> Inl (KeyError (rev acc))
         | Some v \<Rightarrow>
             (case str_format_from cs None kw of
                Inl e \<Rightarrow> Inl e
              | Inr s \<Rightarrow> Inr (v @ s)))
      else str_format_from cs (Some (c # acc)) kw)"

definition str_format :: "string \<Rightarrow> (string \<times> string) list \<Rightarrow> error + string" where
  "str_format pat kw = str_format_from pat None kw"


section \<open>util.py: convenience variables\<close>

text \<open>
  \<open>conv_map\<close> is the module-level dictionary of convenience variables. A key may be
  absent, or present with the value \<open>None\<close>; both read as \<open>'auto'\<close>.
\<close>

type_synonym conv_map = "string \<rightharpoonup> string option"

definition get_convenience_variable :: "conv_map \<Rightarrow> string \<Rightarrow> string" where
  "get_convenience_variable cm ident =
     (case cm ident of
        None \<Rightarrow> ''auto''
      | Some None \<Rightarrow> ''auto''
      | Some (Some val) \<Rightarrow> val)"

definition set_convenience_variable :: "conv_map \<Rightarrow> string \<Rightarrow> string option \<Rightarrow> conv_map" where
  "set_convenience_variable cm ident val = cm(ident \<mapsto> val)"


section \<open>arch.py: language and compiler resolution\<close>

definition language_map :: "(string \<times> string list) list" where
  "language_map =
   [(''aarch64'', [''AARCH64:BE:64:v8A'', ''AARCH64:LE:64:AppleSilicon'', ''AARCH64:LE:64:v8A'']),
    (''aarch64:ilp32'', [''AARCH64:BE:32:ilp32'', ''AARCH64:LE:32:ilp32'', ''AARCH64:LE:64:AppleSilicon'']),
    (''arm_any'', [''ARM:BE:32:v8'', ''ARM:BE:32:v8T'', ''ARM:LE:32:v8'', ''ARM:LE:32:v8T'']),
    (''armv2'', [''ARM:BE:32:v4'', ''ARM:LE:32:v4'']),
    (''armv2a'', [''ARM:BE:32:v4'', ''ARM:LE:32:v4'']),
    (''armv3'', [''ARM:BE:32:v4'', ''ARM:LE:32:v4'']),
    (''armv3m'', [''ARM:BE:32:v4'', ''ARM:LE:32:v4'']),
    (''armv4'', [''ARM:BE:32:v4'', ''ARM:LE:32:v4'']),
    (''armv4t'', [''ARM:BE:32:v4t'', ''ARM:LE:32:v4t'']),
    (''armv5'', [''ARM:BE:32:v5'', ''ARM:LE:32:v5'']),
    (''armv5t'', [''ARM:BE:32:v5t'', ''ARM:LE:32:v5t'']),
    (''armv5tej'', [''ARM:BE:32:v5t'', ''ARM:LE:32:v5t'']),
    (''armv6'', [''ARM:BE:32:v6'', ''ARM:LE:32:v6'']),
    (''armv6-m'', [''ARM:BE:32:Cortex'', ''ARM:LE:32:Cortex'']),
    (''armv6k'', [''ARM:BE:32:Cortex'', ''ARM:LE:32:Cortex'']),
    (''armv6kz'', [''ARM:BE:32:Cortex'', ''ARM:LE:32:Cortex'']),
    (''armv6s-m'', [''ARM:BE:32:Cortex'', ''ARM:LE:32:Cortex'']),
    (''armv7'', [''ARM:BE:32:v7'', ''ARM:LE:32:v7'']),
    (''armv7e-m'', [''ARM:LE:32:Cortex'']),
    (''armv8-a'', [''ARM:BE:32:v8'', ''ARM:LE:32:v8'']),
    (''armv8-m.base'', [''ARM:BE:32:v8'', ''ARM:LE:32:v8'']),
    (''armv8-m.main'', [''ARM:BE:32:v8'', ''ARM:LE:32:v8'']),
    (''armv8-r'', [''ARM:BE:32:v8'', ''ARM:LE:32:v8'']),
    (''armv8.1-m.main'', [''ARM:BE:32:v8'', ''ARM:LE:32:v8'']),
    (''avr:107'', [''avr8:LE:24:xmega'']),
    (''avr:31'', [''avr8:LE:16:default'']),
    (''avr:51'', [''avr8:LE:16:atmega256'']),
    (''avr:6'', [''avr8:LE:16:atmega256'']),
    (''hppa2.0w'', [''pa-risc:BE:32:default'']),
    (''i386'', [''x86:LE:32:default'']),
    (''i386:intel'', [''x86:LE:32:default'']),
    (''i386:x86-64'', [''x86:LE:64:default'']),
    (''i386:x86-64:intel'', [''x86:LE:64:default'']),
    (''i8086'', [''x86:LE:16:Protected Mode'', ''x86:LE:16:Real Mode'']),
    (''iwmmxt'', [''ARM:BE:32:v7'', ''ARM:BE:32:v8'', ''ARM:BE:32:v8T'', ''ARM:LE:32:v7'', ''ARM:LE:32:v8'', ''ARM:LE:32:v8T'']),
    (''m68hc12'', [''HC-12:BE:16:default'']),
    (''m68k'', [''68000:BE:32:default'']),
    (''m68k:68020'', [''68000:BE:32:MC68020'']),
    (''m68k:68030'', [''68000:BE:32:MC68030'']),
    (''m9s12x'', [''HCS-12:BE:24:default'', ''HCS-12X:BE:24:default'']),
    (''mips:4000'', [''MIPS:BE:32:default'', ''MIPS:LE:32:default'']),
    (''mips:5000'', [''MIPS:BE:64:64-32addr'', ''MIPS:BE:64:default'', ''MIPS:LE:64:64-32addr'', ''MIPS:LE:64:default'']),
    (''mips:micromips'', [''MIPS:BE:32:micro'']),
    (''msp:430X'', [''TI_MSP430:LE:16:default'']),
    (''powerpc:403'', [''PowerPC:BE:32:4xx'', ''PowerPC:LE:32:4xx'']),
    (''powerpc:MPC8XX'', [''PowerPC:BE:32:MPC8270'', ''PowerPC:BE:32:QUICC'', ''PowerPC:LE:32:QUICC'']),
    (''powerpc:common'', [''PowerPC:BE:32:default'', ''PowerPC:LE:32:default'']),
    (''powerpc:common64'', [''PowerPC:BE:64:64-32addr'', ''PowerPC:BE:64:default'', ''PowerPC:LE:64:64-32addr'', ''PowerPC:LE:64:default'']),
    (''powerpc:e500'', [''PowerPC:BE:32:e500'', ''PowerPC:LE:32:e500'']),
    (''powerpc:e500mc'', [''PowerPC:BE:64:A2ALT'', ''PowerPC:LE:64:A2ALT'']),
    (''powerpc:e500mc64'', [''PowerPC:BE:64:A2-32addr'', ''PowerPC:BE:64:A2ALT-32addr'', ''PowerPC:LE:64:A2-32addr'', ''PowerPC:LE:64:A2ALT-32addr'']),
    (''riscv:rv32'', [''RISCV:LE:32:RV32G'', ''RISCV:LE:32:RV32GC'', ''RISCV:LE:32:RV32I'', ''RISCV:LE:32:RV32IC'', ''RISCV:LE:32:RV32IMC'', ''RISCV:LE:32:default'']),
    (''riscv:rv64'', [''RISCV:LE:64:RV64G'', ''RISCV:LE:64:RV64GC'', ''RISCV:LE:64:RV64I'', ''RISCV:LE:64:RV64IC'', ''RISCV:LE:64:default'']),
    (''sh4'', [''SuperH4:BE:32:default'', ''SuperH4:LE:32:default'']),
    (''sparc:v9b'', [''sparc:BE:32:default'', ''sparc:BE:64:default'']),
    (''x86'', [''x86:LE:32:default'']),
    (''x64'', [''x86:LE:64:default'']),
    (''xscale'', [''ARM:BE:32:v6'', ''ARM:LE:32:v6'']),
    (''z80'', [''z80:LE:16:default'', ''z8401x:LE:16:default''])]"

text \<open>
  The compiler tables are keyed by an OS/ABI name or by \<open>None\<close> (any ABI), so the key
  type is \<open>string option\<close>.
\<close>

definition data64_compiler_map :: "(string option \<times> string) list" where
  "data64_compiler_map = [(None, ''pointer64'')]"

definition x86_compiler_map :: "(string option \<times> string) list" where
  "x86_compiler_map =
     [(Some ''linux'', ''gcc''), (Some ''windows'', ''windows''), (Some ''Cygwin'', ''Visual Studio'')]"

definition compiler_map :: "(string \<times> (string option \<times> string) list) list" where
  "compiler_map =
     [(''DATA:BE:64:default'', data64_compiler_map),
      (''DATA:LE:64:default'', data64_compiler_map),
      (''x86:LE:32:default'', x86_compiler_map),
      (''x86:LE:64:default'', x86_compiler_map)]"

text \<open>
  The environment the resolver reads: the convenience variables and the reply of
  \<open>util.dbg.query_system_parameters()\<close>, which is \<open>None\<close> when the call raises.
  The reply is a dictionary whose values are plain values or dictionaries of plain values
  (the engine reports the operating system as one).
\<close>

datatype param = Flat pyval | Nested "(string \<times> pyval) list"

record env =
  conv :: conv_map
  system_parameters :: "(string \<times> param) list option"

definition get_arch :: "env \<Rightarrow> error + param" where
  "get_arch e =
     (case system_parameters e of
        None \<Rightarrow> Inr (Flat (PStr ''Unknown''))
      | Some params \<Rightarrow>
          (case map_of params ''arch'' of None \<Rightarrow> Inl (KeyError ''arch'') | Some a \<Rightarrow> Inr a))"

definition get_endian :: "env \<Rightarrow> string" where
  "get_endian e =
     (let parm = get_convenience_variable (conv e) ''endian'' in
      if parm \<noteq> ''auto'' then parm else ''little'')"

definition get_osabi :: "env \<Rightarrow> error + param" where
  "get_osabi e =
     (let parm = get_convenience_variable (conv e) ''osabi'' in
      if parm \<notin> set [''auto'', ''default''] then Inr (Flat (PStr parm))
      else (case system_parameters e of
              None \<Rightarrow> Inl (UnboundLocalError ''params'')
            | Some params \<Rightarrow>
                (case map_of params ''platform'' of
                   None \<Rightarrow> Inl (KeyError ''platform'')
                 | Some p \<Rightarrow> Inr p)))"

text \<open>
  \<open>key in table\<close> and \<open>table[key]\<close> for a key that came from the engine: a
  dictionary is unhashable (\<open>TypeError\<close>), a plain value that is not a string is
  simply absent from a table keyed by strings.
\<close>

definition lookup_param :: "(string \<times> 'v) list \<Rightarrow> param \<Rightarrow> error + 'v option" where
  "lookup_param table k =
     (case k of
        Nested _ \<Rightarrow> Inl TypeError
      | Flat (PStr s) \<Rightarrow> Inr (map_of table s)
      | Flat _ \<Rightarrow> Inr None)"

definition lebe_of :: "string \<Rightarrow> string" where
  "lebe_of endian = (if endian = ''big'' then '':BE:'' else '':LE:'')"

definition lang_key :: "string \<Rightarrow> nat" where
  "lang_key l = (if endswith l '':default'' then 0 else length l)"

text \<open>
  \<open>sorted(..., key=...)\<close> is a stable sort; \<open>sort_key\<close> is the stable insertion sort
  of the list library.
\<close>

definition matched_endian :: "string \<Rightarrow> string list \<Rightarrow> string list" where
  "matched_endian lebe langs = sort_key lang_key (filter (\<lambda>l. str_in lebe l) langs)"

definition compute_ghidra_language :: "env \<Rightarrow> error + string" where
  "compute_ghidra_language e =
     (let lang = get_convenience_variable (conv e) ''ghidra-language'' in
      if lang \<noteq> ''auto'' then Inr lang
      else
        (case get_arch e of
           Inl err \<Rightarrow> Inl err
         | Inr arch \<Rightarrow>
             (let endian = get_endian e;
                  lebe = lebe_of endian in
              (case lookup_param language_map arch of
                 Inl err \<Rightarrow> Inl err
               | Inr None \<Rightarrow> Inr (''DATA'' @ lebe @ ''64:default'')
               | Inr (Some langs) \<Rightarrow>
                   (case matched_endian lebe langs of
                      l # _ \<Rightarrow> Inr l
                    | [] \<Rightarrow> Inr (''DATA'' @ lebe @ ''64:default''))))))"

text \<open>
  The compiler tables are keyed by \<open>Optional[str]\<close>; an OS/ABI that is a string
  is looked up as \<open>Some\<close> of it, and the key \<open>None\<close> stands for any ABI.
\<close>

definition lookup_osabi :: "(string option \<times> string) list \<Rightarrow> param \<Rightarrow> error + string option" where
  "lookup_osabi comp_map osabi =
     (case osabi of
        Nested _ \<Rightarrow> Inl TypeError
      | Flat (PStr s) \<Rightarrow> Inr (map_of comp_map (Some s))
      | Flat PNone \<Rightarrow> Inr (map_of comp_map None)
      | Flat _ \<Rightarrow> Inr None)"

definition compute_ghidra_compiler :: "env \<Rightarrow> string \<Rightarrow> error + string" where
  "compute_ghidra_compiler e lang =
     (let cspec = get_convenience_variable (conv e) ''ghidra-compiler'' in
      if cspec \<noteq> ''auto'' then Inr cspec
      else
        (case map_of compiler_map lang of
           None \<Rightarrow> Inr ''default''
         | Some comp_map \<Rightarrow>
             (case get_osabi e of
                Inl err \<Rightarrow> Inl err
              | Inr osabi \<Rightarrow>
                  (case lookup_osabi comp_map osabi of
                     Inl err \<Rightarrow> Inl err
                   | Inr (Some c) \<Rightarrow> Inr c
                   | Inr None \<Rightarrow>
                       (case map_of comp_map None of
                          Some c \<Rightarrow> Inr c
                        | None \<Rightarrow> Inr ''default'')))))"

definition compute_ghidra_lcsp :: "env \<Rightarrow> error + (string \<times> string)" where
  "compute_ghidra_lcsp e =
     (case compute_ghidra_language e of
        Inl err \<Rightarrow> Inl err
      | Inr lang \<Rightarrow>
          (case compute_ghidra_compiler e lang of
             Inl err \<Rightarrow> Inl err
           | Inr cspec \<Rightarrow> Inr (lang, cspec)))"


section \<open>arch.py: memory mappers\<close>

record Address =
  space :: string
  offset :: int

record DefaultMemoryMapper =
  defaultSpace :: string

definition DefaultMemoryMapper_map ::
  "DefaultMemoryMapper \<Rightarrow> pyval \<Rightarrow> int \<Rightarrow> string \<times> Address" where
  "DefaultMemoryMapper_map self proc off =
     (let sp = defaultSpace self in (defaultSpace self, \<lparr>space = sp, offset = off\<rparr>))"

definition DefaultMemoryMapper_map_back ::
  "DefaultMemoryMapper \<Rightarrow> pyval \<Rightarrow> Address \<Rightarrow> error + int" where
  "DefaultMemoryMapper_map_back self proc address =
     (if space address = defaultSpace self then Inr (offset address) else Inl ValueError)"

definition DEFAULT_MEMORY_MAPPER :: DefaultMemoryMapper where
  "DEFAULT_MEMORY_MAPPER = \<lparr>defaultSpace = ''ram''\<rparr>"

definition memory_mappers :: "(string \<times> DefaultMemoryMapper) list" where
  "memory_mappers = []"

definition compute_memory_mapper :: "string \<Rightarrow> DefaultMemoryMapper" where
  "compute_memory_mapper lang =
     (case map_of memory_mappers lang of
        None \<Rightarrow> DEFAULT_MEMORY_MAPPER
      | Some m \<Rightarrow> m)"


section \<open>arch.py: register mappers\<close>

text \<open>
  \<open>value.to_bytes(length, "big")\<close> on a Python int: the unsigned big-endian bytes,
  \<open>OverflowError\<close> when the value is negative or does not fit.
\<close>

definition to_bytes :: "int \<Rightarrow> nat \<Rightarrow> error + byte list" where
  "to_bytes v n =
     (if 0 \<le> v \<and> v < 256 ^ n
      then Inr (map (\<lambda>i. word_of_int (v div 256 ^ (n - 1 - i))) [0..<n])
      else Inl OverflowError)"

text \<open>
  A register name may be \<open>None\<close> in the source (\<open>map_name\<close> tests for it), and
  \<open>map_name_back\<close> of the x86-64 mapper falls off its end, which returns \<open>None\<close>:
  names are \<open>string option\<close>.
\<close>

record RegVal =
  name :: "string option"
  val :: "byte list"

datatype register_mapper =
    DefaultRegisterMapper string
  | Intel_x86_64_RegisterMapper

definition DefaultRegisterMapper_init :: "string \<Rightarrow> error + register_mapper" where
  "DefaultRegisterMapper_init byte_order =
     (if byte_order \<notin> set [''big'', ''little''] then Inl ValueError
      else Inr (DefaultRegisterMapper byte_order))"

fun byte_order :: "register_mapper \<Rightarrow> string" where
  "byte_order (DefaultRegisterMapper bo) = bo"
| "byte_order Intel_x86_64_RegisterMapper = ''little''"

fun map_name :: "register_mapper \<Rightarrow> pyval \<Rightarrow> string option \<Rightarrow> string option" where
  "map_name (DefaultRegisterMapper bo) proc nm = nm"
| "map_name Intel_x86_64_RegisterMapper proc None = Some ''UNKNOWN''"
| "map_name Intel_x86_64_RegisterMapper proc (Some n) =
     (if n = ''efl'' then Some ''rflags''
      else if startswith n ''zmm'' then Some (''ymm'' @ drop 3 n)
      else Some n)"

text \<open>
  \<open>DefaultRegisterMapper.map_value\<close>; \<open>self.map_name\<close> is dispatched on the
  instance, so the x86-64 mapper's renames apply when it calls this through \<open>super()\<close>.
\<close>

definition DefaultRegisterMapper_map_value ::
  "register_mapper \<Rightarrow> pyval \<Rightarrow> string option \<Rightarrow> int \<Rightarrow> error + RegVal" where
  "DefaultRegisterMapper_map_value self proc nm v =
     (case to_bytes v 8 of
        Inl _ \<Rightarrow> Inl ValueError
      | Inr av \<Rightarrow> Inr \<lparr>name = map_name self proc nm, val = av\<rparr>)"

fun map_value :: "register_mapper \<Rightarrow> pyval \<Rightarrow> string option \<Rightarrow> int \<Rightarrow> error + RegVal" where
  "map_value (DefaultRegisterMapper bo) proc nm v =
     DefaultRegisterMapper_map_value (DefaultRegisterMapper bo) proc nm v"
| "map_value Intel_x86_64_RegisterMapper proc nm v =
     (case DefaultRegisterMapper_map_value Intel_x86_64_RegisterMapper proc nm v of
        Inl e \<Rightarrow> Inl e
      | Inr rv \<Rightarrow>
          (case name rv of
             None \<Rightarrow> Inl AttributeError
           | Some n \<Rightarrow>
               if startswith n ''ymm'' \<and> length (val rv) > 32
               then Inr \<lparr>name = Some n, val = drop (length (val rv) - 32) (val rv)\<rparr>
               else Inr rv))"

fun map_name_back :: "register_mapper \<Rightarrow> pyval \<Rightarrow> string option \<Rightarrow> string option" where
  "map_name_back (DefaultRegisterMapper bo) proc nm = nm"
| "map_name_back Intel_x86_64_RegisterMapper proc nm =
     (if nm = Some ''rflags'' then Some ''eflags'' else None)"

definition map_value_back ::
  "register_mapper \<Rightarrow> pyval \<Rightarrow> string option \<Rightarrow> byte list \<Rightarrow> RegVal" where
  "map_value_back self proc nm v = \<lparr>name = map_name_back self proc nm, val = v\<rparr>"

definition DEFAULT_BE_REGISTER_MAPPER :: register_mapper where
  "DEFAULT_BE_REGISTER_MAPPER = DefaultRegisterMapper ''big''"

definition DEFAULT_LE_REGISTER_MAPPER :: register_mapper where
  "DEFAULT_LE_REGISTER_MAPPER = DefaultRegisterMapper ''little''"

definition register_mappers :: "(string \<times> register_mapper) list" where
  "register_mappers = [(''x86:LE:64:default'', Intel_x86_64_RegisterMapper)]"

definition compute_register_mapper :: "string \<Rightarrow> error + register_mapper" where
  "compute_register_mapper lang =
     (if map_of register_mappers lang = None \<and> str_in '':BE:'' lang
        then Inr DEFAULT_BE_REGISTER_MAPPER
      else if map_of register_mappers lang = None \<and> str_in '':LE:'' lang
        then Inr DEFAULT_LE_REGISTER_MAPPER
      else (case map_of register_mappers lang of
              None \<Rightarrow> Inl (KeyError lang)
            | Some m \<Rightarrow> Inr m))"


section \<open>The trace client and the engine, seen from the agent\<close>

text \<open>
  The remote trace and the instrumentation engine are collaborators outside this code.
  What the agent asks of them is recorded, in order, as a list of events: every request
  to the trace (objects, values, retention, overlay spaces, bytes, registers) and every
  query put to the target. A reply of the target is an argument of the function that
  consumes it. \<open>addr.extend(n)\<close> is kept as the pair of the address and \<open>n\<close>.
\<close>

datatype tvalue =
    Val pyval
  | Dict "(string \<times> pyval) list"
  | Addr Address
  | Range Address int
  | Obj string

datatype event =
    Query string
  | RunScript string
  | StartBatch
  | EndBatch
  | StartTx string
  | CommitTx string
  | AbortTx string
  | CreateObject string
  | SetValue string string tvalue
  | Insert string
  | RetainValues string "string list"
  | CreateOverlaySpace string string
  | PutBytes Address "byte list"
  | PutRegisters string "RegVal list"
  | ValidateState string
  | SetMemoryState tvalue string
  | DeleteBytes tvalue
  | Disassemble Address

record proc_rec =
  p_pid :: int
  p_name :: string

text \<open>
  The trace handle carries the two mappers that \<open>start_trace\<close> attaches to it.
\<close>

record trace =
  memory_mapper :: DefaultMemoryMapper
  register_mapper :: register_mapper

text \<open>
  The module-level state of \<open>commands.py\<close> and \<open>util.py\<close>: the \<open>STATE\<close> object
  (client, trace, transaction), the convenience variables, \<open>util.current_state\<close>,
  \<open>util.targets\<close> (only its keys matter here), \<open>util.processes\<close>, the two globals
  of \<open>putmem\<close>, and the events so far. A transaction is known by its description.
\<close>

record world =
  STATE_client :: bool
  STATE_trace :: "trace option"
  STATE_tx :: "string option"
  conv_map :: conv_map
  current_state :: "string \<rightharpoonup> pyval"
  targets :: "pyval list"
  processes :: "(int \<times> proc_rec) list"
  last_address :: int
  last_length :: int
  events :: "event list"

text \<open>
  A command runs on the world and either returns or raises; what it changed before it
  raised stays changed.
\<close>

type_synonym 'a cmd = "world \<Rightarrow> (error + 'a) \<times> world"

definition ret :: "'a \<Rightarrow> 'a cmd" where
  "ret x = (\<lambda>w. (Inr x, w))"

definition raise :: "error \<Rightarrow> 'a cmd" where
  "raise e = (\<lambda>w. (Inl e, w))"

definition lift :: "error + 'a \<Rightarrow> 'a cmd" where
  "lift r = (\<lambda>w. (r, w))"

definition cbind :: "'a cmd \<Rightarrow> ('a \<Rightarrow> 'b cmd) \<Rightarrow> 'b cmd" where
  "cbind m f = (\<lambda>w. case m w of (Inl e, w') \<Rightarrow> (Inl e, w') | (Inr x, w') \<Rightarrow> f x w')"

definition cseq :: "unit cmd \<Rightarrow> 'a cmd \<Rightarrow> 'a cmd" where
  "cseq m n = cbind m (\<lambda>_. n)"

fun cseqs :: "unit cmd list \<Rightarrow> unit cmd" where
  "cseqs [] = ret ()"
| "cseqs (m # ms) = cseq m (cseqs ms)"

definition cwhen :: "bool \<Rightarrow> unit cmd \<Rightarrow> unit cmd" where
  "cwhen b m = (if b then m else ret ())"

definition get_world :: "world cmd" where
  "get_world = (\<lambda>w. (Inr w, w))"

text \<open>A \<open>for\<close> loop that threads the loop's local variables through its body.\<close>

fun for_each :: "'r list \<Rightarrow> 's \<Rightarrow> ('r \<Rightarrow> 's \<Rightarrow> 's cmd) \<Rightarrow> 's cmd" where
  "for_each [] s body = ret s"
| "for_each (r # rs) s body = cbind (body r s) (\<lambda>s'. for_each rs s' body)"

text \<open>
  A request through \<open>STATE.trace\<close>: an \<open>AttributeError\<close> when there is no trace
  (\<open>None\<close> has no such method), the event otherwise.
\<close>

definition trace_call :: "event \<Rightarrow> unit cmd" where
  "trace_call ev =
     (\<lambda>w. case STATE_trace w of
            None \<Rightarrow> (Inl AttributeError, w)
          | Some t \<Rightarrow> (Inr (), w\<lparr>events := events w @ [ev]\<rparr>))"

definition get_trace :: "trace cmd" where
  "get_trace =
     (\<lambda>w. case STATE_trace w of None \<Rightarrow> (Inl AttributeError, w) | Some t \<Rightarrow> (Inr t, w))"

definition engine_call :: "event \<Rightarrow> unit cmd" where
  "engine_call ev = (\<lambda>w. (Inr (), w\<lparr>events := events w @ [ev]\<rparr>))"

definition set_current_state :: "string \<Rightarrow> pyval \<Rightarrow> unit cmd" where
  "set_current_state k v = (\<lambda>w. (Inr (), w\<lparr>current_state := (current_state w)(k \<mapsto> v)\<rparr>))"


section \<open>util.py: the current selection\<close>

definition selected_session :: "world \<Rightarrow> pyval" where
  "selected_session w = (case current_state w ''sid'' of None \<Rightarrow> PNone | Some v \<Rightarrow> v)"

definition selected_process :: "world \<Rightarrow> pyval" where
  "selected_process w = (case current_state w ''pid'' of None \<Rightarrow> PNone | Some v \<Rightarrow> v)"

definition selected_thread :: "world \<Rightarrow> pyval" where
  "selected_thread w = (case current_state w ''tid'' of None \<Rightarrow> PNone | Some v \<Rightarrow> v)"

definition selected_frame :: "world \<Rightarrow> pyval" where
  "selected_frame w = (case current_state w ''fid'' of None \<Rightarrow> PNone | Some v \<Rightarrow> v)"

definition select_thread :: "pyval \<Rightarrow> unit cmd" where
  "select_thread ident = set_current_state ''tid'' ident"

definition put_module_address :: "string \<Rightarrow> pyval \<Rightarrow> unit cmd" where
  "put_module_address path addr = set_current_state path addr"

text \<open>\<open>int(expr)\<close> on an int or a string.\<close>

datatype arg = ArgInt int | ArgStr string

fun arg_str :: "arg \<Rightarrow> string" where
  "arg_str (ArgInt n) = str_int n"
| "arg_str (ArgStr s) = s"

fun parse_and_eval :: "arg \<Rightarrow> error + int" where
  "parse_and_eval (ArgInt n) = Inr n"
| "parse_and_eval (ArgStr s) = py_int s 10"


section \<open>commands.py: paths, session state, transactions\<close>

definition PAGE_SIZE :: int where "PAGE_SIZE = 4096"

definition SESSIONS_PATH :: string where "SESSIONS_PATH = ''Sessions''"
definition SESSION_KEY_PATTERN :: string where "SESSION_KEY_PATTERN = ''[{sid}]''"
definition SESSION_PATTERN :: string where "SESSION_PATTERN = SESSIONS_PATH @ SESSION_KEY_PATTERN"
definition ATTRIBUTES_PATH :: string where "ATTRIBUTES_PATH = SESSION_PATTERN @ ''.Attributes''"
definition AVAILABLES_PATH :: string where "AVAILABLES_PATH = SESSION_PATTERN @ ''.Available''"
definition AVAILABLE_KEY_PATTERN :: string where "AVAILABLE_KEY_PATTERN = ''[{pid}]''"
definition AVAILABLE_PATTERN :: string where "AVAILABLE_PATTERN = AVAILABLES_PATH @ AVAILABLE_KEY_PATTERN"
definition APPLICATIONS_PATH :: string where "APPLICATIONS_PATH = SESSION_PATTERN @ ''.Applications''"
definition APPLICATION_KEY_PATTERN :: string where "APPLICATION_KEY_PATTERN = ''[{pid}]''"
definition APPLICATION_PATTERN :: string where "APPLICATION_PATTERN = APPLICATIONS_PATH @ APPLICATION_KEY_PATTERN"
definition PROCESSES_PATH :: string where "PROCESSES_PATH = SESSION_PATTERN @ ''.Processes''"
definition PROCESS_KEY_PATTERN :: string where "PROCESS_KEY_PATTERN = ''[{pid}]''"
definition PROCESS_PATTERN :: string where "PROCESS_PATTERN = PROCESSES_PATH @ PROCESS_KEY_PATTERN"
definition ENV_PATTERN :: string where "ENV_PATTERN = SESSION_PATTERN @ ''.Environment''"
definition THREADS_PATTERN :: string where "THREADS_PATTERN = PROCESS_PATTERN @ ''.Threads''"
definition THREAD_KEY_PATTERN :: string where "THREAD_KEY_PATTERN = ''[{tid}]''"
definition THREAD_PATTERN :: string where "THREAD_PATTERN = THREADS_PATTERN @ THREAD_KEY_PATTERN"
definition FRAMES_PATTERN :: string where "FRAMES_PATTERN = THREAD_PATTERN @ ''.Stack''"
definition FRAME_KEY_PATTERN :: string where "FRAME_KEY_PATTERN = ''[{level}]''"
definition FRAME_PATTERN :: string where "FRAME_PATTERN = FRAMES_PATTERN @ FRAME_KEY_PATTERN"
definition REGS_PATTERN :: string where "REGS_PATTERN = THREAD_PATTERN @ ''.Registers''"
definition REGIONS_PATTERN :: string where "REGIONS_PATTERN = PROCESS_PATTERN @ ''.Memory''"
definition REGION_KEY_PATTERN :: string where "REGION_KEY_PATTERN = ''[{start}]''"
definition REGION_PATTERN :: string where "REGION_PATTERN = REGIONS_PATTERN @ REGION_KEY_PATTERN"
definition KREGIONS_PATTERN :: string where "KREGIONS_PATTERN = SESSION_PATTERN @ ''.Memory''"
definition KREGION_KEY_PATTERN :: string where "KREGION_KEY_PATTERN = ''[{start}]''"
definition KREGION_PATTERN :: string where "KREGION_PATTERN = KREGIONS_PATTERN @ KREGION_KEY_PATTERN"
definition HEAP_PATTERN :: string where "HEAP_PATTERN = PROCESS_PATTERN @ ''.Heap''"
definition HEAP_REGION_KEY_PATTERN :: string where "HEAP_REGION_KEY_PATTERN = ''[{start}]''"
definition HEAP_REGION_PATTERN :: string where "HEAP_REGION_PATTERN = HEAP_PATTERN @ HEAP_REGION_KEY_PATTERN"
definition MODULES_PATTERN :: string where "MODULES_PATTERN = PROCESS_PATTERN @ ''.Modules''"
definition MODULE_KEY_PATTERN :: string where "MODULE_KEY_PATTERN = ''[{modpath}]''"
definition MODULE_PATTERN :: string where "MODULE_PATTERN = MODULES_PATTERN @ MODULE_KEY_PATTERN"
definition KMODULES_PATTERN :: string where "KMODULES_PATTERN = SESSION_PATTERN @ ''.Modules''"
definition KMODULE_KEY_PATTERN :: string where "KMODULE_KEY_PATTERN = ''[{modpath}]''"
definition KMODULE_PATTERN :: string where "KMODULE_PATTERN = KMODULES_PATTERN @ KMODULE_KEY_PATTERN"
definition SECTIONS_PATTERN :: string where "SECTIONS_PATTERN = MODULE_PATTERN @ ''.Sections''"
definition SECTION_KEY_PATTERN :: string where "SECTION_KEY_PATTERN = ''[{start}]''"
definition SECTION_PATTERN :: string where "SECTION_PATTERN = SECTIONS_PATTERN @ SECTION_KEY_PATTERN"
definition IMPORTS_PATTERN :: string where "IMPORTS_PATTERN = MODULE_PATTERN @ ''.Imports''"
definition IMPORT_KEY_PATTERN :: string where "IMPORT_KEY_PATTERN = ''[{addr}]''"
definition IMPORT_PATTERN :: string where "IMPORT_PATTERN = IMPORTS_PATTERN @ IMPORT_KEY_PATTERN"
definition EXPORTS_PATTERN :: string where "EXPORTS_PATTERN = MODULE_PATTERN @ ''.Exports''"
definition EXPORT_KEY_PATTERN :: string where "EXPORT_KEY_PATTERN = ''[{addr}]''"
definition EXPORT_PATTERN :: string where "EXPORT_PATTERN = EXPORTS_PATTERN @ EXPORT_KEY_PATTERN"
definition SYMBOLS_PATTERN :: string where "SYMBOLS_PATTERN = MODULE_PATTERN @ ''.Symbols''"
definition SYMBOL_KEY_PATTERN :: string where "SYMBOL_KEY_PATTERN = ''[{addr}]''"
definition SYMBOL_PATTERN :: string where "SYMBOL_PATTERN = SYMBOLS_PATTERN @ SYMBOL_KEY_PATTERN"
definition DEPENDENCIES_PATTERN :: string where "DEPENDENCIES_PATTERN = MODULE_PATTERN @ ''.Dependencies''"
definition DEPENDENCY_KEY_PATTERN :: string where "DEPENDENCY_KEY_PATTERN = ''[{name}]''"
definition DEPENDENCY_PATTERN :: string where "DEPENDENCY_PATTERN = DEPENDENCIES_PATTERN @ DEPENDENCY_KEY_PATTERN"
definition CLASSES_PATTERN :: string where "CLASSES_PATTERN = PROCESS_PATTERN @ ''.Classes''"
definition CLASS_KEY_PATTERN :: string where "CLASS_KEY_PATTERN = ''[{path}]''"
definition CLASS_PATTERN :: string where "CLASS_PATTERN = CLASSES_PATTERN @ CLASS_KEY_PATTERN"
definition METHODS_PATTERN :: string where "METHODS_PATTERN = CLASS_PATTERN @ ''.Methods''"
definition METHOD_KEY_PATTERN :: string where "METHOD_KEY_PATTERN = ''[{name}]''"
definition METHOD_PATTERN :: string where "METHOD_PATTERN = METHODS_PATTERN @ METHOD_KEY_PATTERN"
definition LOADERS_PATTERN :: string where "LOADERS_PATTERN = PROCESS_PATTERN @ ''.ClassLoaders''"
definition LOADER_KEY_PATTERN :: string where "LOADER_KEY_PATTERN = ''[{path}]''"
definition LOADER_PATTERN :: string where "LOADER_PATTERN = LOADERS_PATTERN @ LOADER_KEY_PATTERN"

text \<open>The \<open>State\<close> class: each \<open>require_\<close> method raises when its precondition fails.\<close>

definition require_client :: "unit cmd" where
  "require_client =
     (\<lambda>w. if STATE_client w then (Inr (), w) else (Inl (RuntimeError ''Not connected''), w))"

definition require_trace :: "trace cmd" where
  "require_trace =
     (\<lambda>w. case STATE_trace w of
            None \<Rightarrow> (Inl (RuntimeError ''No trace active''), w)
          | Some t \<Rightarrow> (Inr t, w))"

definition require_no_trace :: "unit cmd" where
  "require_no_trace =
     (\<lambda>w. if STATE_trace w \<noteq> None then (Inl (RuntimeError ''Trace already started''), w)
           else (Inr (), w))"

definition require_tx :: "string cmd" where
  "require_tx =
     (\<lambda>w. case STATE_tx w of
            None \<Rightarrow> (Inl (RuntimeError ''No transaction''), w)
          | Some tx \<Rightarrow> (Inr tx, w))"

definition require_no_tx :: "unit cmd" where
  "require_no_tx =
     (\<lambda>w. if STATE_tx w \<noteq> None then (Inl (RuntimeError ''Transaction already started''), w)
           else (Inr (), w))"

definition reset_tx :: "unit cmd" where
  "reset_tx = (\<lambda>w. (Inr (), w\<lparr>STATE_tx := None\<rparr>))"

definition ghidra_trace_txstart :: "string \<Rightarrow> unit cmd" where
  "ghidra_trace_txstart description =
     cseq require_no_tx
       (cbind require_trace (\<lambda>_.
          cseq (engine_call (StartTx description))
               (\<lambda>w. (Inr (), w\<lparr>STATE_tx := Some description\<rparr>))))"

definition ghidra_trace_txcommit :: "unit cmd" where
  "ghidra_trace_txcommit =
     cbind require_tx (\<lambda>tx. cseq (engine_call (CommitTx tx)) reset_tx)"

definition ghidra_trace_txabort :: "unit cmd" where
  "ghidra_trace_txabort =
     cbind require_tx (\<lambda>tx. cseq (engine_call (AbortTx tx)) reset_tx)"

text \<open>
  \<open>with STATE.client.batch() as b: body\<close>. Without a client the attribute access
  raises; with one, the batch is closed on every way out of the body.
\<close>

definition batch :: "unit cmd \<Rightarrow> unit cmd" where
  "batch body =
     (\<lambda>w. if \<not> STATE_client w then (Inl AttributeError, w)
           else (case body (w\<lparr>events := events w @ [StartBatch]\<rparr>) of
                   (r, w') \<Rightarrow> (r, w'\<lparr>events := events w' @ [EndBatch]\<rparr>)))"


section \<open>Scripted queries and their replies\<close>

text \<open>
  The message a script sends back, as the callbacks read it: no message, an error
  message, a message without payload, or a payload whose JSON holds \<open>value\<close> and
  \<open>data\<close>. Both readers answer the empty dictionary, here \<open>None\<close>, when there is
  nothing to read; iterating over it visits nothing.
\<close>

datatype ('v, 'd) message = MNone | MError string | MNoPayload | MPayload 'v 'd

fun get_values_from_callback :: "('v, 'd) message \<Rightarrow> 'v option" where
  "get_values_from_callback MNone = None"
| "get_values_from_callback (MError description) = None"
| "get_values_from_callback MNoPayload = None"
| "get_values_from_callback (MPayload v d) = Some v"

fun get_data_from_callback :: "('v, 'd) message \<Rightarrow> 'd option" where
  "get_data_from_callback MNone = None"
| "get_data_from_callback (MError description) = None"
| "get_data_from_callback MNoPayload = None"
| "get_data_from_callback (MPayload v d) = Some d"

definition iterate :: "'a list option \<Rightarrow> 'a list" where
  "iterate values = (case values of None \<Rightarrow> [] | Some xs \<Rightarrow> xs)"

text \<open>\<open>str(cbdata)\<close>, where the empty dictionary prints as \<open>{}\<close>.\<close>

definition data_str :: "string option \<Rightarrow> string" where
  "data_str cbdata = (case cbdata of None \<Rightarrow> ''{}'' | Some d \<Rightarrow> d)"

text \<open>
  \<open>script.load()\<close> hands the script's message to the callback registered on it. The
  engine's binding calls the callback inside its own handler, which reports an
  exception of the callback and goes on: the exception does not reach the caller of
  \<open>run_script\<close>, and what the callback did before raising stays done. The model
  delivers the one message of the script before \<open>load\<close> returns.
\<close>

definition deliver :: "('m \<Rightarrow> unit cmd) \<Rightarrow> 'm \<Rightarrow> unit cmd" where
  "deliver callback message = (\<lambda>w. case callback message w of (r, w') \<Rightarrow> (Inr (), w'))"

definition with_target :: "unit cmd \<Rightarrow> unit cmd" where
  "with_target body =
     (\<lambda>w. let pid = selected_process w in
           if pid = PNone then (Inr (), w)
           else if \<not> list_ex (py_eq pid) (targets w) then (Inl (KeyError (py_str pid)), w)
           else body w)"

definition quote :: string where
  "quote = [CHR 0x27]"

definition run_script_no_ret :: "string \<Rightarrow> string \<Rightarrow> ('m \<Rightarrow> unit cmd) \<Rightarrow> 'm \<Rightarrow> unit cmd" where
  "run_script_no_ret nm text callback message =
     with_target (cseq (engine_call (RunScript text)) (deliver callback message))"

definition run_script :: "string \<Rightarrow> string \<Rightarrow> ('m \<Rightarrow> unit cmd) \<Rightarrow> 'm \<Rightarrow> unit cmd" where
  "run_script nm text callback message =
     with_target
       (let wrapped_text = ''var result = '' @ quote @ quote @ ''; '' @ text
              @ ''var msg = { key: '' @ quote @ nm
              @ quote @ '', value: result};''
              @ ''send(JSON.stringify(msg));''
        in cseq (engine_call (RunScript wrapped_text)) (deliver callback message))"

definition run_script_with_data ::
  "string \<Rightarrow> string \<Rightarrow> string \<Rightarrow> ('m \<Rightarrow> unit cmd) \<Rightarrow> 'm \<Rightarrow> unit cmd" where
  "run_script_with_data nm text data callback message =
     with_target
       (let wrapped_text = ''var data = '' @ data @ ''; ''
              @ ''var result = '' @ quote @ quote @ ''; '' @ text
              @ ''var msg = { key: '' @ quote @ nm
              @ quote @ '', value: result, data: data};''
              @ ''send(JSON.stringify(msg));''
        in cseq (engine_call (RunScript wrapped_text)) (deliver callback message))"


section \<open>Requests on trace objects\<close>

text \<open>
  \<open>STATE.trace.method(...)\<close> goes through \<open>trace_call\<close>, since \<open>STATE.trace\<close> may
  be \<open>None\<close>. A method of an object already in hand (\<open>robj.set_value\<close>,
  \<open>robj.insert\<close>, a local \<open>trace\<close>) and a query of the engine cannot fail that
  way: \<open>emit\<close> records them.
\<close>

definition emit :: "event \<Rightarrow> unit cmd" where
  "emit ev = engine_call ev"

definition create_object :: "string \<Rightarrow> unit cmd" where
  "create_object path = trace_call (CreateObject path)"

definition proxy_retain_values :: "string \<Rightarrow> string list \<Rightarrow> unit cmd" where
  "proxy_retain_values path keys = trace_call (RetainValues path keys)"

definition create_overlay_space :: "string \<Rightarrow> string \<Rightarrow> unit cmd" where
  "create_overlay_space base sp = trace_call (CreateOverlaySpace base sp)"

definition set_value :: "string \<Rightarrow> string \<Rightarrow> tvalue \<Rightarrow> unit cmd" where
  "set_value path key v = emit (SetValue path key v)"

definition insert_obj :: "string \<Rightarrow> unit cmd" where
  "insert_obj path = emit (Insert path)"

text \<open>\<open>STATE.trace.create_object(path).insert()\<close>\<close>

definition create_and_insert :: "string \<Rightarrow> unit cmd" where
  "create_and_insert path = cseq (create_object path) (insert_obj path)"

fun opt_str :: "string option \<Rightarrow> pyval" where
  "opt_str None = PNone"
| "opt_str (Some s) = PStr s"

fun opt_int :: "int option \<Rightarrow> pyval" where
  "opt_int None = PNone"
| "opt_int (Some n) = PInt n"


section \<open>commands.py: memory\<close>

definition quantize_pages :: "int \<Rightarrow> int \<Rightarrow> int \<times> int" where
  "quantize_pages start stop =
     (start div PAGE_SIZE * PAGE_SIZE, (stop + PAGE_SIZE - 1) div PAGE_SIZE * PAGE_SIZE)"

definition eval_address :: "arg \<Rightarrow> error + int" where
  "eval_address address =
     (case parse_and_eval address of
        Inl _ \<Rightarrow> Inl (RuntimeError (''Cannot convert '' @ quote @ arg_str address @ quote @ '' to address''))
      | Inr n \<Rightarrow> Inr n)"

definition eval_range :: "arg \<Rightarrow> arg \<Rightarrow> error + (int \<times> int)" where
  "eval_range address len =
     (case eval_address address of
        Inl e \<Rightarrow> Inl e
      | Inr start \<Rightarrow>
          (case parse_and_eval len of
             Inl _ \<Rightarrow> Inl (RuntimeError (''Cannot convert '' @ quote @ arg_str len @ quote @ '' to length''))
           | Inr n \<Rightarrow> Inr (start, start + n)))"

text \<open>
  \<open>putmem_state\<close>. Its overlay branch names a variable \<open>trace\<close> that the function
  does not have; taking the branch would raise \<open>NameError\<close>.
\<close>

definition putmem_state :: "arg \<Rightarrow> arg \<Rightarrow> string \<Rightarrow> bool \<Rightarrow> unit cmd" where
  "putmem_state address len state pages =
     cseq (trace_call (ValidateState state))
       (cbind (lift (eval_range address len)) (\<lambda>(start0, stop0).
          let (start, stop) = (if pages then quantize_pages start0 stop0 else (start0, stop0)) in
          cbind get_world (\<lambda>w.
          let pid = selected_process w in
          cbind get_trace (\<lambda>tr.
          let (base, addr) = DefaultMemoryMapper_map (memory_mapper tr) pid start in
          cseq (cwhen (base \<noteq> space addr \<and> state \<noteq> ''unknown'') (raise (NameError ''trace'')))
               (trace_call (SetMemoryState (Range addr (stop - start)) state))))))"

definition ghidra_trace_putmem_state :: "arg \<Rightarrow> arg \<Rightarrow> string \<Rightarrow> bool \<Rightarrow> unit cmd" where
  "ghidra_trace_putmem_state address len state pages =
     cbind require_tx (\<lambda>_. putmem_state address len state pages)"

text \<open>
  The hexdump the read script answers with: per line, the 16 tokens at positions 2 to 17
  of the line split at blanks are read as hexadecimal bytes.
\<close>

fun parse_tokens :: "string list \<Rightarrow> nat list \<Rightarrow> error + int list" where
  "parse_tokens split [] = Inr []"
| "parse_tokens split (i # rest) =
     (if length split \<le> i then Inl IndexError
      else (case py_int (split ! i) 16 of
              Inl e \<Rightarrow> Inl e
            | Inr n \<Rightarrow>
                (case parse_tokens split rest of
                   Inl e \<Rightarrow> Inl e
                 | Inr ns \<Rightarrow> Inr (n # ns))))"

fun hexdump_lines :: "string list \<Rightarrow> error + int list" where
  "hexdump_lines [] = Inr []"
| "hexdump_lines (l # ls) =
     (case parse_tokens (split_on CHR '' '' l) [2, 3, 4, 5, 6, 7, 8, 9, 10, 11, 12, 13, 14, 15, 16, 17] of
        Inl e \<Rightarrow> Inl e
      | Inr ns \<Rightarrow>
          (case hexdump_lines ls of
             Inl e \<Rightarrow> Inl e
           | Inr ms \<Rightarrow> Inr (ns @ ms)))"

text \<open>\<open>bytes(buf)\<close> on a list of ints.\<close>

definition bytes_of :: "int list \<Rightarrow> error + byte list" where
  "bytes_of buf =
     (if list_all (\<lambda>n. 0 \<le> n \<and> n < 256) buf then Inr (map word_of_int buf) else Inl ValueError)"

definition put_mem_callback :: "(string, int) message \<Rightarrow> unit cmd" where
  "put_mem_callback message =
     cbind require_trace (\<lambda>tr.
     cbind get_world (\<lambda>w.
     let pid = selected_process w;
         values = get_values_from_callback message;
         start = get_data_from_callback message in
     (case (values, start) of
        (Some v, Some st) \<Rightarrow>
          cbind (lift (hexdump_lines (split_on (CHR 0x0A) v))) (\<lambda>buf.
          let (base, addr) = DefaultMemoryMapper_map (memory_mapper tr) pid st in
          cseq (cwhen (base \<noteq> space addr) (emit (CreateOverlaySpace base (space addr))))
               (cbind (lift (bytes_of buf)) (\<lambda>bs. emit (PutBytes addr bs))))
      | _ \<Rightarrow>
          putmem_state (ArgInt (last_address w)) (ArgInt (last_address w + last_length w))
            ''error'' True)))"

definition putmem :: "arg option \<Rightarrow> arg \<Rightarrow> (string, int) message \<Rightarrow> unit cmd" where
  "putmem address len message =
     (case address of
        None \<Rightarrow> ret ()
      | Some a \<Rightarrow>
          (let address_str = arg_str a; length_str = arg_str len in
           cbind (lift (py_int address_str 0)) (\<lambda>la.
           cseq (\<lambda>w. (Inr (), w\<lparr>last_address := la\<rparr>))
          (cbind (lift (py_int length_str 10)) (\<lambda>ll.
           cseq (\<lambda>w. (Inr (), w\<lparr>last_length := ll\<rparr>))
             (let cmd = ''var buf = ptr('' @ address_str @ '').readByteArray('' @ length_str
                          @ ''); result = hexdump(buf, {header:false});''
              in run_script_with_data ''read_memory'' cmd address_str put_mem_callback message))))))"

text \<open>
  \<open>length < PAGE_SIZE\<close> compares the argument with an int, which a string argument
  does not allow.
\<close>

definition ghidra_trace_putmem :: "arg option \<Rightarrow> arg \<Rightarrow> bool \<Rightarrow> (string, int) message \<Rightarrow> unit cmd" where
  "ghidra_trace_putmem address len pages message =
     cbind require_tx (\<lambda>_.
       (case len of
          ArgStr _ \<Rightarrow> raise TypeError
        | ArgInt n \<Rightarrow> putmem address (ArgInt (if n < PAGE_SIZE then PAGE_SIZE else n)) message))"


section \<open>commands.py: registers\<close>

text \<open>
  A thread as the engine enumerates it. \<open>context\<close> maps register names to their values
  as text; its order is the order of \<open>context.keys()\<close>.
\<close>

record thread_rec =
  t_id :: int
  t_name :: "string option"
  t_state :: "string option"
  t_context :: "(string \<times> string) list"

fun find_context :: "thread_rec list \<Rightarrow> pyval \<Rightarrow> (string \<times> string) list option" where
  "find_context [] tid = None"
| "find_context (t # ts) tid =
     (if py_eq (PInt (t_id t)) tid then Some (t_context t) else find_context ts tid)"

definition thread_kw :: "pyval \<Rightarrow> pyval \<Rightarrow> pyval \<Rightarrow> (string \<times> string) list" where
  "thread_kw sid pid tid = [(''sid'', py_str sid), (''pid'', py_str pid), (''tid'', py_str tid)]"

text \<open>
  The register loop of \<open>put_reg_callback\<close>: a register whose value does not convert is
  reported and left out; the others are appended to \<open>values\<close> and set on the object.
\<close>

definition put_reg_register ::
  "register_mapper \<Rightarrow> pyval \<Rightarrow> string \<Rightarrow> string \<times> string \<Rightarrow> RegVal list \<Rightarrow> RegVal list cmd" where
  "put_reg_register mapper pid regs r vals =
     (case py_int (snd r) 0 of
        Inl _ \<Rightarrow> ret vals
      | Inr n \<Rightarrow>
          (case map_value mapper pid (Some (fst r)) n of
             Inl _ \<Rightarrow> ret vals
           | Inr rv \<Rightarrow> cseq (set_value regs (fst r) (Val (PStr (snd r)))) (ret (vals @ [rv]))))"

definition put_reg_callback :: "(thread_rec list, 'd) message \<Rightarrow> unit cmd" where
  "put_reg_callback message =
     (let values = get_values_from_callback message in
      cbind get_world (\<lambda>w.
      let sid = selected_session w; pid = selected_process w; tid = selected_thread w in
      (case find_context (iterate values) tid of
         None \<Rightarrow> ret ()
       | Some context \<Rightarrow>
           cbind (lift (str_format REGS_PATTERN (thread_kw sid pid tid))) (\<lambda>sp.
           cseq (create_overlay_space ''register'' sp)
          (cseq (create_object sp)
          (cseq (insert_obj sp)
          (cbind get_trace (\<lambda>tr.
           cbind (for_each context [] (put_reg_register (register_mapper tr) pid sp)) (\<lambda>vals.
           trace_call (PutRegisters sp vals))))))))))"

definition putreg :: "(thread_rec list, 'd) message \<Rightarrow> unit cmd" where
  "putreg message =
     (let cmd = ''result = Process.enumerateThreads();'' in
      run_script ''list_threads'' cmd put_reg_callback message)"

definition ghidra_trace_putreg :: "(thread_rec list, 'd) message \<Rightarrow> unit cmd" where
  "ghidra_trace_putreg message = cbind require_tx (\<lambda>_. putreg message)"


section \<open>commands.py: sessions, processes, environment\<close>

text \<open>
  The records below are the shapes the callbacks read from a reply: a field the code
  reads with \<open>r['key']\<close> is a field of the record, a field it first tests with
  \<open>'key' in r.keys()\<close> or against \<open>None\<close> is optional.
\<close>

record device_rec =
  dev_id :: string
  dev_name :: string
  dev_type :: string

definition put_sessions :: "device_rec list \<Rightarrow> unit cmd" where
  "put_sessions result =
     cseq (emit (Query ''enumerate_devices''))
    (cbind (for_each result [] (\<lambda>d keys.
       let ident = dev_id d; nm = dev_name d; ty = dev_type d in
       cbind (lift (str_format SESSION_PATTERN [(''sid'', ident)])) (\<lambda>dpath.
       cseq (create_object dpath)
      (cbind (lift (str_format SESSION_KEY_PATTERN [(''sid'', ident)])) (\<lambda>key.
       cseq (cseqs
              [set_value dpath ''Id'' (Val (PStr ident)),
               set_value dpath ''Name'' (Val (PStr nm)),
               set_value dpath ''Type'' (Val (PStr ty)),
               set_value dpath ''_display'' (Val (PStr (ident @ '':'' @ nm))),
               insert_obj dpath])
      (cbind (lift (str_format AVAILABLES_PATH [(''sid'', ident)])) (\<lambda>apath.
       cseq (create_and_insert apath) (ret (keys @ [key])))))))))
    (\<lambda>keys. proxy_retain_values SESSIONS_PATH keys))"

definition ghidra_trace_put_sessions :: "device_rec list \<Rightarrow> unit cmd" where
  "ghidra_trace_put_sessions result = cbind require_tx (\<lambda>_. batch (put_sessions result))"

definition compute_proc_state :: "int \<Rightarrow> string" where
  "compute_proc_state pid = ''STOPPED''"

text \<open>
  \<open>radix\<close> is a convenience variable, a string, so it equals neither 16 nor 8 and
  \<open>pidstr\<close> is the decimal \<open>'{}'.format(pid)\<close>. The key is appended before the
  object is created.
\<close>

definition put_process :: "proc_rec \<Rightarrow> string list \<Rightarrow> string list cmd" where
  "put_process proc keys =
     (let pid = p_pid proc in
      cbind (lift (str_format PROCESS_PATTERN [(''sid'', ''local''), (''pid'', str_int pid)])) (\<lambda>ppath.
      cbind (lift (str_format PROCESS_KEY_PATTERN [(''pid'', str_int pid)])) (\<lambda>key.
      cseq (create_object ppath)
     (cseq (cseqs
              [set_value ppath ''_state'' (Val (PStr (compute_proc_state pid))),
               set_value ppath ''_pid'' (Val (PInt pid)),
               set_value ppath ''Name'' (Val (PStr (p_name proc))),
               set_value ppath ''_display'' (Val (PStr (str_int pid @ '' '' @ p_name proc))),
               create_and_insert (ppath @ ''.Memory''),
               create_and_insert (ppath @ ''.Modules''),
               create_and_insert (ppath @ ''.Threads''),
               insert_obj ppath])
           (ret (keys @ [key]))))))"

definition put_processes :: "bool \<Rightarrow> unit cmd" where
  "put_processes running =
     (if running then ret ()
      else cbind get_world (\<lambda>w.
           cbind (for_each (map snd (processes w)) [] put_process) (\<lambda>keys.
           proxy_retain_values PROCESSES_PATH keys)))"

definition ghidra_trace_put_processes :: "unit cmd" where
  "ghidra_trace_put_processes = cbind require_tx (\<lambda>_. batch (put_processes False))"

definition put_available :: "proc_rec list \<Rightarrow> unit cmd" where
  "put_available result =
     cseq (emit (Query ''enumerate_processes''))
    (cbind (for_each result [] (\<lambda>p keys.
       let ident = p_pid p; nm = p_name p in
       cbind (lift (str_format AVAILABLE_PATTERN [(''sid'', ''local''), (''pid'', str_int ident)])) (\<lambda>ppath.
       cseq (create_object ppath)
      (cbind (lift (str_format AVAILABLE_KEY_PATTERN [(''pid'', str_int ident)])) (\<lambda>key.
       cseq (cseqs
              [set_value ppath ''_pid'' (Val (PInt ident)),
               set_value ppath ''Name'' (Val (PStr nm)),
               set_value ppath ''_display'' (Val (PStr (str_int ident @ '' '' @ nm))),
               insert_obj ppath])
            (ret (keys @ [key])))))))
    (\<lambda>keys. proxy_retain_values AVAILABLES_PATH keys))"

definition ghidra_trace_put_available :: "proc_rec list \<Rightarrow> unit cmd" where
  "ghidra_trace_put_available result = cbind require_tx (\<lambda>_. batch (put_available result))"

definition put_applications :: "proc_rec list \<Rightarrow> unit cmd" where
  "put_applications result =
     cseq (emit (Query ''enumerate_applications''))
    (cbind (for_each result [] (\<lambda>p keys.
       let ident = p_pid p; nm = p_name p in
       cbind (lift (str_format APPLICATION_PATTERN [(''sid'', ''local''), (''pid'', str_int ident)])) (\<lambda>ppath.
       cseq (create_object ppath)
      (cbind (lift (str_format APPLICATION_KEY_PATTERN [(''pid'', str_int ident)])) (\<lambda>key.
       cseq (cseqs
              [set_value ppath ''_pid'' (Val (PInt ident)),
               set_value ppath ''Name'' (Val (PStr nm)),
               set_value ppath ''_display'' (Val (PStr (str_int ident @ '' '' @ nm))),
               insert_obj ppath])
            (ret (keys @ [key])))))))
    (\<lambda>keys. proxy_retain_values APPLICATIONS_PATH keys))"

definition ghidra_trace_put_applications :: "proc_rec list \<Rightarrow> unit cmd" where
  "ghidra_trace_put_applications result = cbind require_tx (\<lambda>_. batch (put_applications result))"

definition put_session_attributes_callback :: "((string \<times> pyval) list, 'd) message \<Rightarrow> unit cmd" where
  "put_session_attributes_callback message =
     (let values = get_values_from_callback message in
      cbind get_world (\<lambda>w.
      let sid = selected_session w; pid = selected_process w in
      cbind get_trace (\<lambda>tr.
      cbind (lift (str_format ATTRIBUTES_PATH [(''sid'', py_str sid)])) (\<lambda>apath.
      cseq (create_object apath)
     (cseq (cseqs (map (\<lambda>(k, v). set_value apath k (Val v)) (iterate values)))
           (insert_obj apath))))))"

definition put_session_attributes :: "((string \<times> pyval) list, 'd) message \<Rightarrow> unit cmd" where
  "put_session_attributes message =
     (let cmd = ''var d = {};''
          @ ''d['' @ quote @ ''version'' @ quote @ ''] = Frida.version;''
          @ ''d['' @ quote @ ''heapSize'' @ quote @ ''] = Frida.heapSize;''
          @ ''d['' @ quote @ ''id'' @ quote @ ''] = Process.id;''
          @ ''d['' @ quote @ ''arch'' @ quote @ ''] = Process.arch;''
          @ ''d['' @ quote @ ''os'' @ quote @ ''] = Process.platform;''
          @ ''d['' @ quote @ ''pageSize'' @ quote @ ''] = Process.pageSize;''
          @ ''d['' @ quote @ ''pointerSize'' @ quote @ ''] = Process.pointerSize;''
          @ ''d['' @ quote @ ''codeSigning'' @ quote @ ''] = Process.codeSigningPolicy;''
          @ ''d['' @ quote @ ''debugger'' @ quote @ ''] = Process.isDebuggerAttached();''
          @ ''d['' @ quote @ ''runtime'' @ quote @ ''] = Script.runtime;''
          @ ''d['' @ quote @ ''kernel'' @ quote @ ''] = Kernel.available;''
          @ ''if (Kernel.available) {''
          @ ''   d['' @ quote @ ''kbase'' @ quote @ ''] = Kernel.base;''
          @ ''   d['' @ quote @ ''kPageSize'' @ quote @ ''] = Kernel.pageSize;''
          @ ''}''
          @ ''result = d;''
      in run_script ''get_session_attributeds'' cmd put_session_attributes_callback message)"

definition ghidra_trace_put_session_attributes :: "((string \<times> pyval) list, 'd) message \<Rightarrow> unit cmd" where
  "ghidra_trace_put_session_attributes message =
     cbind require_tx (\<lambda>_. batch (put_session_attributes message))"

fun param_value :: "param \<Rightarrow> tvalue" where
  "param_value (Flat v) = Val v"
| "param_value (Nested d) = Dict d"

text \<open>
  \<open>put_environment\<close>. Each of \<open>get_arch\<close>, \<open>get_osabi\<close> (unless the OS/ABI is set
  by a convenience variable) and the function itself asks the engine for the system
  parameters; the argument is the reply, \<open>None\<close> when the engine raises.
\<close>

definition put_param :: "string \<Rightarrow> string \<times> param \<Rightarrow> unit cmd" where
  "put_param epath kv =
     (case snd kv of
        Nested d \<Rightarrow> cseqs (map (\<lambda>(kk, vv). set_value epath (fst kv @ '':'' @ kk) (Val vv)) d)
      | Flat v \<Rightarrow> set_value epath (fst kv) (Val v))"

definition put_environment :: "(string \<times> param) list option \<Rightarrow> unit cmd" where
  "put_environment reply =
     cbind get_world (\<lambda>w.
     let sid = selected_session w;
         e = \<lparr>conv = conv_map w, system_parameters = reply\<rparr> in
     cbind (lift (str_format ENV_PATTERN [(''sid'', py_str sid)])) (\<lambda>epath.
     cseq (create_object epath)
    (cseq (set_value epath ''_debugger'' (Val (PStr ''frida'')))
    (cseq (emit (Query ''query_system_parameters''))
    (cbind (lift (get_arch e)) (\<lambda>a.
     cseq (set_value epath ''_arch'' (param_value a))
    (cseq (cwhen (get_convenience_variable (conv_map w) ''osabi'' \<in> set [''auto'', ''default''])
                 (emit (Query ''query_system_parameters'')))
    (cbind (lift (get_osabi e)) (\<lambda>os.
     cseq (set_value epath ''_os'' (param_value os))
    (cseq (set_value epath ''_endian'' (Val (PStr (get_endian e))))
    (cseq (emit (Query ''query_system_parameters''))
    (case reply of
       None \<Rightarrow> raise EngineError
     | Some params \<Rightarrow>
         cseq (cseqs (map (put_param epath) params)) (insert_obj epath)))))))))))))"

definition ghidra_trace_put_environment :: "(string \<times> param) list option \<Rightarrow> unit cmd" where
  "ghidra_trace_put_environment reply = cbind require_tx (\<lambda>_. batch (put_environment reply))"


section \<open>commands.py: regions, heap, modules, sections\<close>

record file_rec =
  f_path :: string
  f_offset :: int
  f_size :: int

record range_rec =
  r_base :: string
  r_size :: int
  r_protection :: string
  r_file :: "file_rec option"

record malloc_range_rec =
  h_base :: string
  h_size :: int

record module_rec =
  m_name :: string
  m_path :: string
  m_base :: string
  m_size :: int

record kmodule_rec =
  km_name :: string
  km_base :: string
  km_size :: int

definition proc_kw :: "pyval \<Rightarrow> pyval \<Rightarrow> (string \<times> string) list" where
  "proc_kw sid pid = [(''sid'', py_str sid), (''pid'', py_str pid)]"

text \<open>
  The two lines every memory path shares:
  \<open>base_base, base_addr = mapper.map(pid, int(base, 0))\<close> and the guard
  \<open>if base_base != base_addr.space: STATE.trace.create_overlay_space(...)\<close>.
\<close>

definition map_base :: "DefaultMemoryMapper \<Rightarrow> pyval \<Rightarrow> string \<Rightarrow> Address cmd" where
  "map_base mapper pid base =
     cbind (lift (py_int base 0)) (\<lambda>off.
     let (base_base, base_addr) = DefaultMemoryMapper_map mapper pid off in
     cseq (cwhen (base_base \<noteq> space base_addr) (create_overlay_space base_base (space base_addr)))
          (ret base_addr))"

definition file_display :: "file_rec \<Rightarrow> string" where
  "file_display file = f_path file @ '' '' @ format_x (f_offset file) @ '':'' @ format_x (f_size file)"

definition set_file :: "string \<Rightarrow> file_rec option \<Rightarrow> unit cmd" where
  "set_file rpath file =
     (case file of
        None \<Rightarrow> ret ()
      | Some f \<Rightarrow> set_value rpath ''File'' (Val (PStr (file_display f))))"

definition region_display :: "string \<Rightarrow> int \<Rightarrow> string \<Rightarrow> string" where
  "region_display base sz prot = base @ '':'' @ format_x sz @ '' '' @ prot @ '' ''"

text \<open>\<open>put_region_callback\<close>: one range; on the empty dictionary \<open>r['base']\<close> raises.\<close>

definition put_region_callback :: "(range_rec, 'd) message \<Rightarrow> unit cmd" where
  "put_region_callback message =
     (case get_values_from_callback message of
        None \<Rightarrow> raise (KeyError ''base'')
      | Some r \<Rightarrow>
          cbind get_world (\<lambda>w.
          let sid = selected_session w; pid = selected_process w;
              base = r_base r; sz = r_size r; prot = r_protection r in
          cbind (lift (str_format REGION_PATTERN (proc_kw sid pid @ [(''start'', base)]))) (\<lambda>rpath.
          cseq (create_object rpath)
         (cbind get_trace (\<lambda>tr.
          cbind (map_base (memory_mapper tr) pid base) (\<lambda>base_addr.
          cseqs
            [set_value rpath ''_offset'' (Addr base_addr),
             set_value rpath ''_range'' (Range base_addr sz),
             set_value rpath ''Base'' (Val (PStr base)),
             set_value rpath ''Size'' (Val (PStr (hex sz))),
             set_current_state base (PInt sz),
             set_value rpath ''Protection'' (Val (PStr prot)),
             set_file rpath (r_file r),
             set_value rpath ''_display'' (Val (PStr (region_display base sz prot))),
             insert_obj rpath]))))))"

definition put_region :: "arg \<Rightarrow> (range_rec, 'd) message \<Rightarrow> unit cmd" where
  "put_region address message =
     (let cmd = ''result = Process.findRangeByAddress(ptr('' @ arg_str address @ ''));'' in
      run_script ''find_range'' cmd put_region_callback message)"

definition put_regions_callback :: "(range_rec list, 'd) message \<Rightarrow> unit cmd" where
  "put_regions_callback message =
     (let values = get_values_from_callback message in
      cbind get_world (\<lambda>w.
      let sid = selected_session w; pid = selected_process w in
      cbind get_trace (\<lambda>tr.
      let mapper = memory_mapper tr in
      cbind (for_each (iterate values) [] (\<lambda>r keys.
         let base = r_base r; sz = r_size r; prot = r_protection r in
         cbind (lift (str_format REGION_PATTERN (proc_kw sid pid @ [(''start'', base)]))) (\<lambda>rpath.
         cseq (create_object rpath)
        (cbind (lift (str_format REGION_KEY_PATTERN [(''start'', base)])) (\<lambda>key.
         cbind (map_base mapper pid base) (\<lambda>base_addr.
         cseq (cseqs
                [set_value rpath ''_offset'' (Addr base_addr),
                 set_value rpath ''_range'' (Range base_addr sz),
                 set_value rpath ''Base'' (Val (PStr base)),
                 set_value rpath ''Size'' (Val (PStr (hex sz))),
                 set_current_state base (PInt sz),
                 set_value rpath ''Protection'' (Val (PStr prot)),
                 set_file rpath (r_file r),
                 set_value rpath ''_display'' (Val (PStr (region_display base sz prot))),
                 insert_obj rpath])
              (ret (keys @ [key]))))))))
     (\<lambda>keys.
      cbind (lift (str_format REGIONS_PATTERN (proc_kw sid pid))) (\<lambda>path.
      proxy_retain_values path keys)))))"

definition put_regions :: "bool \<Rightarrow> (range_rec list, 'd) message \<Rightarrow> unit cmd" where
  "put_regions running message =
     (if running then ret ()
      else (let cmd = ''result = Process.enumerateRanges('' @ quote @ ''---'' @ quote @ '');'' in
            run_script ''list_ranges'' cmd put_regions_callback message))"

definition ghidra_trace_put_regions :: "(range_rec list, 'd) message \<Rightarrow> unit cmd" where
  "ghidra_trace_put_regions message = cbind require_tx (\<lambda>_. batch (put_regions False message))"

definition put_kregions_callback :: "(range_rec list, 'd) message \<Rightarrow> unit cmd" where
  "put_kregions_callback message =
     (let values = get_values_from_callback message in
      cbind get_world (\<lambda>w.
      let sid = selected_session w; pid = selected_process w in
      cbind get_trace (\<lambda>tr.
      let mapper = memory_mapper tr in
      cbind (for_each (iterate values) [] (\<lambda>r keys.
         let base = r_base r; sz = r_size r; prot = r_protection r in
         cbind (lift (str_format KREGION_PATTERN (proc_kw sid pid @ [(''start'', base)]))) (\<lambda>rpath.
         cseq (create_object rpath)
        (cbind (lift (str_format KREGION_KEY_PATTERN [(''start'', base)])) (\<lambda>key.
         cbind (map_base mapper pid base) (\<lambda>base_addr.
         cseq (cseqs
                [set_value rpath ''_offset'' (Addr base_addr),
                 set_value rpath ''_range'' (Range base_addr sz),
                 set_value rpath ''Base'' (Val (PStr base)),
                 set_value rpath ''Size'' (Val (PStr (hex sz))),
                 set_current_state base (PInt sz),
                 set_value rpath ''Protection'' (Val (PStr prot)),
                 set_value rpath ''_display'' (Val (PStr (region_display base sz prot))),
                 insert_obj rpath])
              (ret (keys @ [key]))))))))
     (\<lambda>keys.
      cbind (lift (str_format KREGIONS_PATTERN (proc_kw sid pid))) (\<lambda>path.
      proxy_retain_values path keys)))))"

definition put_kregions :: "bool \<Rightarrow> (range_rec list, 'd) message \<Rightarrow> unit cmd" where
  "put_kregions running message =
     (if running then ret ()
      else (let cmd = ''result = Kernel.enumerateRanges('' @ quote @ ''---'' @ quote @ '');'' in
            run_script ''list_ranges'' cmd put_kregions_callback message))"

definition ghidra_trace_put_kregions :: "(range_rec list, 'd) message \<Rightarrow> unit cmd" where
  "ghidra_trace_put_kregions message = cbind require_tx (\<lambda>_. batch (put_kregions False message))"

text \<open>
  \<open>put_heap_callback\<close> formats \<open>HEAP_REGION_PATTERN\<close>, which has a \<open>{pid}\<close> field,
  with \<open>sid\<close> and \<open>start\<close> only.
\<close>

definition put_heap_callback :: "(malloc_range_rec list, 'd) message \<Rightarrow> unit cmd" where
  "put_heap_callback message =
     (let values = get_values_from_callback message in
      cbind get_world (\<lambda>w.
      let pid = selected_process w; sid = selected_session w in
      cbind get_trace (\<lambda>tr.
      let mapper = memory_mapper tr in
      cbind (for_each (iterate values) [] (\<lambda>r keys.
         let base = h_base r; sz = h_size r in
         cbind (lift (str_format HEAP_REGION_PATTERN [(''sid'', py_str sid), (''start'', base)])) (\<lambda>rpath.
         cseq (create_object rpath)
        (cbind (lift (str_format HEAP_REGION_KEY_PATTERN [(''start'', base)])) (\<lambda>key.
         cbind (map_base mapper pid base) (\<lambda>base_addr.
         cseq (cseqs
                [set_value rpath ''_range'' (Range base_addr sz),
                 set_value rpath ''Base'' (Val (PStr base)),
                 set_value rpath ''Size'' (Val (PStr (hex sz))),
                 set_value rpath ''_display'' (Val (PStr (base @ '':'' @ format_x sz))),
                 insert_obj rpath])
              (ret (keys @ [key]))))))))
     (\<lambda>keys.
      cbind (lift (str_format HEAP_PATTERN (proc_kw sid pid))) (\<lambda>path.
      proxy_retain_values path keys)))))"

definition put_heap :: "bool \<Rightarrow> (malloc_range_rec list, 'd) message \<Rightarrow> unit cmd" where
  "put_heap running message =
     (if running then ret ()
      else (let cmd = ''result = Process.enumerateMallocRanges('' @ quote @ ''---'' @ quote @ '');'' in
            run_script ''list_heap_ranges'' cmd put_heap_callback message))"

definition ghidra_trace_put_heap :: "(malloc_range_rec list, 'd) message \<Rightarrow> unit cmd" where
  "ghidra_trace_put_heap message = cbind require_tx (\<lambda>_. batch (put_heap False message))"

definition put_modules_callback :: "(module_rec list, 'd) message \<Rightarrow> unit cmd" where
  "put_modules_callback message =
     (let values = get_values_from_callback message in
      cbind get_world (\<lambda>w.
      let sid = selected_session w; pid = selected_process w in
      cbind get_trace (\<lambda>tr.
      let mapper = memory_mapper tr in
      cbind (for_each (iterate values) [] (\<lambda>m keys.
         let nm = m_name m; path = m_path m; base = m_base m; sz = m_size m in
         cseq (put_module_address path (PStr base))
        (cbind (lift (str_format MODULE_PATTERN (proc_kw sid pid @ [(''modpath'', path)]))) (\<lambda>mpath.
         cseq (create_object mpath)
        (cbind (lift (str_format MODULE_KEY_PATTERN [(''modpath'', path)])) (\<lambda>key.
         cbind (map_base mapper pid base) (\<lambda>base_addr.
         cseq (cseqs
                [set_value mpath ''_range'' (Range base_addr sz),
                 set_value mpath ''_module_name'' (Val (PStr nm)),
                 set_value mpath ''Name'' (Val (PStr nm)),
                 set_value mpath ''Path'' (Val (PStr path)),
                 set_value mpath ''Base'' (Val (PStr base)),
                 set_value mpath ''Size'' (Val (PStr (hex sz))),
                 set_current_state path (PStr base),
                 set_current_state base (PInt sz),
                 set_value mpath ''_display'' (Val (PStr (region_display base sz nm))),
                 insert_obj mpath,
                 create_and_insert (mpath @ ''.Sections''),
                 create_and_insert (mpath @ ''.Exports''),
                 create_and_insert (mpath @ ''.Imports''),
                 create_and_insert (mpath @ ''.Symbols''),
                 create_and_insert (mpath @ ''.Dependencies'')])
              (ret (keys @ [key])))))))))
     (\<lambda>keys.
      cbind (lift (str_format MODULES_PATTERN (proc_kw sid pid))) (\<lambda>path.
      proxy_retain_values path keys)))))"

definition put_modules :: "bool \<Rightarrow> (module_rec list, 'd) message \<Rightarrow> unit cmd" where
  "put_modules running message =
     (if running then ret ()
      else (let cmd = ''result = Process.enumerateModules();'' in
            run_script ''list_modules'' cmd put_modules_callback message))"

definition ghidra_trace_put_modules :: "(module_rec list, 'd) message \<Rightarrow> unit cmd" where
  "ghidra_trace_put_modules message = cbind require_tx (\<lambda>_. batch (put_modules False message))"

definition put_kmodules_callback :: "(kmodule_rec list, 'd) message \<Rightarrow> unit cmd" where
  "put_kmodules_callback message =
     (let values = get_values_from_callback message in
      cbind get_world (\<lambda>w.
      let sid = selected_session w in
      cbind get_trace (\<lambda>tr.
      let mapper = memory_mapper tr in
      cbind (for_each (iterate values) [] (\<lambda>m keys.
         let nm = km_name m; base = km_base m; sz = km_size m in
         cbind (lift (str_format KMODULE_PATTERN [(''sid'', py_str sid), (''modpath'', nm)])) (\<lambda>mpath.
         cseq (create_object mpath)
        (cbind (lift (str_format KMODULE_KEY_PATTERN [(''modpath'', nm)])) (\<lambda>key.
         cbind (map_base mapper (PInt 0) base) (\<lambda>base_addr.
         cseq (cseqs
                [set_value mpath ''_range'' (Range base_addr sz),
                 set_value mpath ''Name'' (Val (PStr nm)),
                 set_value mpath ''Base'' (Val (PStr base)),
                 set_value mpath ''Size'' (Val (PStr (hex sz))),
                 set_current_state base (PInt sz),
                 set_value mpath ''_display'' (Val (PStr (region_display base sz nm))),
                 insert_obj mpath])
              (ret (keys @ [key]))))))))
     (\<lambda>keys.
      cbind (lift (str_format KMODULES_PATTERN [(''sid'', py_str sid)])) (\<lambda>path.
      proxy_retain_values path keys)))))"

definition put_kmodules :: "bool \<Rightarrow> (kmodule_rec list, 'd) message \<Rightarrow> unit cmd" where
  "put_kmodules running message =
     (if running then ret ()
      else (let cmd = ''result = Kernel.enumerateModules();'' in
            run_script ''list_kmodules'' cmd put_kmodules_callback message))"

definition ghidra_trace_put_kmodules :: "(kmodule_rec list, 'd) message \<Rightarrow> unit cmd" where
  "ghidra_trace_put_kmodules message = cbind require_tx (\<lambda>_. batch (put_kmodules False message))"

definition mod_kw :: "pyval \<Rightarrow> pyval \<Rightarrow> string option \<Rightarrow> (string \<times> string) list" where
  "mod_kw sid pid cbdata = proc_kw sid pid @ [(''modpath'', data_str cbdata)]"

definition put_sections_callback :: "(range_rec list, string) message \<Rightarrow> unit cmd" where
  "put_sections_callback message =
     (let values = get_values_from_callback message;
          cbdata = get_data_from_callback message in
      cbind get_world (\<lambda>w.
      let sid = selected_session w; pid = selected_process w in
      cbind get_trace (\<lambda>tr.
      let mapper = memory_mapper tr in
      cbind (for_each (iterate values) [] (\<lambda>r keys.
         let base = r_base r; sz = r_size r; prot = r_protection r in
         cbind (lift (str_format SECTION_PATTERN (mod_kw sid pid cbdata @ [(''start'', base)]))) (\<lambda>rpath.
         cseq (create_object rpath)
        (cbind (lift (str_format SECTION_KEY_PATTERN [(''start'', base)])) (\<lambda>key.
         cbind (map_base mapper pid base) (\<lambda>base_addr.
         cseq (cseqs
                [set_value rpath ''_range'' (Range base_addr sz),
                 set_value rpath ''Base'' (Val (PStr base)),
                 set_value rpath ''Size'' (Val (PStr (hex sz))),
                 set_current_state base (PInt sz),
                 set_value rpath ''Protection'' (Val (PStr prot)),
                 set_file rpath (r_file r),
                 set_value rpath ''_display'' (Val (PStr (region_display base sz prot))),
                 insert_obj rpath])
              (ret (keys @ [key]))))))))
     (\<lambda>keys.
      cbind (lift (str_format SECTIONS_PATTERN (mod_kw sid pid cbdata))) (\<lambda>path.
      proxy_retain_values path keys)))))"

definition put_sections :: "string \<Rightarrow> string \<Rightarrow> bool \<Rightarrow> (range_rec list, string) message \<Rightarrow> unit cmd" where
  "put_sections modpath addr running message =
     (if running then ret ()
      else (let cmd = ''result = Process.findModuleByAddress('' @ quote @ addr @ quote
                        @ '').enumerateRanges('' @ quote @ ''---'' @ quote @ '');'' in
            run_script_with_data ''list_sections'' cmd modpath put_sections_callback message))"

definition ghidra_trace_put_sections :: "string \<Rightarrow> string \<Rightarrow> (range_rec list, string) message \<Rightarrow> unit cmd" where
  "ghidra_trace_put_sections modpath addr message =
     cbind require_tx (\<lambda>_. batch (put_sections modpath addr False message))"


section \<open>commands.py: imports, exports, symbols, dependencies\<close>

record import_rec =
  i_name :: string
  i_address :: string
  i_type :: string
  i_module :: "string option"
  i_slot :: "string option"

record export_rec =
  x_name :: string
  x_address :: string
  x_type :: string
  x_module :: "string option"

record symbol_rec =
  s_name :: string
  s_address :: string
  s_type :: string
  s_size :: pyval
  s_isGlobal :: bool
  s_section_id :: "string option"

record dependency_rec =
  d_name :: string
  d_type :: string

definition set_optional :: "string \<Rightarrow> string \<Rightarrow> string option \<Rightarrow> unit cmd" where
  "set_optional path key v =
     (case v of None \<Rightarrow> ret () | Some s \<Rightarrow> set_value path key (Val (PStr s)))"

definition put_imports_callback :: "(import_rec list, string) message \<Rightarrow> unit cmd" where
  "put_imports_callback message =
     (let values = get_values_from_callback message;
          cbdata = get_data_from_callback message in
      cbind get_world (\<lambda>w.
      let sid = selected_session w; pid = selected_process w in
      cbind get_trace (\<lambda>tr.
      cbind (for_each (iterate values) [] (\<lambda>i keys.
         let nm = i_name i; addr = i_address i; ty = i_type i in
         cbind (lift (str_format IMPORT_PATTERN (mod_kw sid pid cbdata @ [(''addr'', addr)]))) (\<lambda>ipath.
         cseq (create_object ipath)
        (cbind (lift (str_format IMPORT_KEY_PATTERN [(''addr'', addr)])) (\<lambda>key.
         cseq (cseqs
                [set_value ipath ''Name'' (Val (PStr nm)),
                 set_value ipath ''Address'' (Val (PStr addr)),
                 set_current_state addr (PStr nm),
                 set_value ipath ''Type'' (Val (PStr ty)),
                 set_optional ipath ''Module'' (i_module i),
                 set_optional ipath ''Slot'' (i_slot i),
                 set_value ipath ''_display'' (Val (PStr (addr @ '' '' @ nm @ '' ''))),
                 insert_obj ipath])
              (ret (keys @ [key])))))))
     (\<lambda>keys.
      cbind (lift (str_format IMPORTS_PATTERN (mod_kw sid pid cbdata))) (\<lambda>path.
      proxy_retain_values path keys)))))"

definition put_imports :: "string \<Rightarrow> string \<Rightarrow> bool \<Rightarrow> (import_rec list, string) message \<Rightarrow> unit cmd" where
  "put_imports modpath addr running message =
     (if running then ret ()
      else (let cmd = ''result = Process.findModuleByAddress('' @ quote @ addr @ quote
                        @ '').enumerateImports();'' in
            run_script_with_data ''list_imports'' cmd modpath put_imports_callback message))"

definition ghidra_trace_put_imports :: "string \<Rightarrow> string \<Rightarrow> (import_rec list, string) message \<Rightarrow> unit cmd" where
  "ghidra_trace_put_imports modpath addr message =
     cbind require_tx (\<lambda>_. batch (put_imports modpath addr False message))"

definition put_exports_callback :: "(export_rec list, string) message \<Rightarrow> unit cmd" where
  "put_exports_callback message =
     (let values = get_values_from_callback message;
          cbdata = get_data_from_callback message in
      cbind get_world (\<lambda>w.
      let sid = selected_session w; pid = selected_process w in
      cbind get_trace (\<lambda>tr.
      cbind (for_each (iterate values) [] (\<lambda>x keys.
         let nm = x_name x; addr = x_address x; ty = x_type x in
         cbind (lift (str_format EXPORT_PATTERN (mod_kw sid pid cbdata @ [(''addr'', addr)]))) (\<lambda>xpath.
         cseq (create_object xpath)
        (cbind (lift (str_format EXPORT_KEY_PATTERN [(''addr'', addr)])) (\<lambda>key.
         cseq (cseqs
                [set_value xpath ''Name'' (Val (PStr nm)),
                 set_value xpath ''Address'' (Val (PStr addr)),
                 set_current_state addr (PStr nm),
                 set_value xpath ''Type'' (Val (PStr ty)),
                 set_optional xpath ''Module'' (x_module x),
                 set_value xpath ''_display'' (Val (PStr (addr @ '' '' @ nm @ '' ''))),
                 insert_obj xpath])
              (ret (keys @ [key])))))))
     (\<lambda>keys.
      cbind (lift (str_format EXPORTS_PATTERN (mod_kw sid pid cbdata))) (\<lambda>path.
      proxy_retain_values path keys)))))"

definition put_exports :: "string \<Rightarrow> string \<Rightarrow> bool \<Rightarrow> (export_rec list, string) message \<Rightarrow> unit cmd" where
  "put_exports modpath addr running message =
     (if running then ret ()
      else (let cmd = ''result = Process.findModuleByAddress('' @ quote @ addr @ quote
                        @ '').enumerateExports();'' in
            run_script_with_data ''list_imports'' cmd modpath put_exports_callback message))"

definition ghidra_trace_put_exports :: "string \<Rightarrow> string \<Rightarrow> (export_rec list, string) message \<Rightarrow> unit cmd" where
  "ghidra_trace_put_exports modpath addr message =
     cbind require_tx (\<lambda>_. batch (put_exports modpath addr False message))"

definition put_symbols_callback :: "(symbol_rec list, string) message \<Rightarrow> unit cmd" where
  "put_symbols_callback message =
     (let values = get_values_from_callback message;
          cbdata = get_data_from_callback message in
      cbind get_world (\<lambda>w.
      let sid = selected_session w; pid = selected_process w in
      cbind get_trace (\<lambda>tr.
      cbind (for_each (iterate values) [] (\<lambda>sym keys.
         let nm = s_name sym; addr = s_address sym; ty = s_type sym in
         cbind (lift (str_format SYMBOL_PATTERN (mod_kw sid pid cbdata @ [(''addr'', addr)]))) (\<lambda>spath.
         cseq (create_object spath)
        (cbind (lift (str_format SYMBOL_KEY_PATTERN [(''addr'', addr)])) (\<lambda>key.
         cseq (cseqs
                [set_value spath ''Name'' (Val (PStr nm)),
                 set_value spath ''Address'' (Val (PStr addr)),
                 set_current_state addr (PStr nm),
                 set_value spath ''Type'' (Val (PStr ty)),
                 set_value spath ''Size'' (Val (s_size sym)),
                 set_value spath ''IsGlobal'' (Val (PBool (s_isGlobal sym))),
                 set_optional spath ''Section'' (s_section_id sym),
                 set_value spath ''_display'' (Val (PStr (addr @ '' '' @ nm @ '' ''))),
                 insert_obj spath])
              (ret (keys @ [key])))))))
     (\<lambda>keys.
      cbind (lift (str_format SYMBOLS_PATTERN (mod_kw sid pid cbdata))) (\<lambda>path.
      proxy_retain_values path keys)))))"

definition put_symbols :: "string \<Rightarrow> string \<Rightarrow> bool \<Rightarrow> (symbol_rec list, string) message \<Rightarrow> unit cmd" where
  "put_symbols modpath addr running message =
     (if running then ret ()
      else (let cmd = ''result = Process.findModuleByAddress('' @ quote @ addr @ quote
                        @ '').enumerateSymbols();'' in
            run_script_with_data ''list_symbols'' cmd modpath put_symbols_callback message))"

definition ghidra_trace_put_symbols :: "string \<Rightarrow> string \<Rightarrow> (symbol_rec list, string) message \<Rightarrow> unit cmd" where
  "ghidra_trace_put_symbols modpath addr message =
     cbind require_tx (\<lambda>_. batch (put_symbols modpath addr False message))"

definition put_dependencies_callback :: "(dependency_rec list, string) message \<Rightarrow> unit cmd" where
  "put_dependencies_callback message =
     (let values = get_values_from_callback message;
          cbdata = get_data_from_callback message in
      cbind get_world (\<lambda>w.
      let sid = selected_session w; pid = selected_process w in
      cbind get_trace (\<lambda>tr.
      cbind (for_each (iterate values) [] (\<lambda>dep keys.
         let nm = d_name dep; ty = d_type dep in
         cbind (lift (str_format DEPENDENCY_PATTERN (mod_kw sid pid cbdata @ [(''name'', nm)]))) (\<lambda>dpath.
         cseq (create_object dpath)
        (cbind (lift (str_format DEPENDENCY_KEY_PATTERN [(''name'', nm)])) (\<lambda>key.
         cseq (cseqs
                [set_value dpath ''Name'' (Val (PStr nm)),
                 set_value dpath ''Type'' (Val (PStr ty)),
                 set_value dpath ''_display'' (Val (PStr (nm @ '' ''))),
                 insert_obj dpath])
              (ret (keys @ [key])))))))
     (\<lambda>keys.
      cbind (lift (str_format DEPENDENCIES_PATTERN (mod_kw sid pid cbdata))) (\<lambda>path.
      proxy_retain_values path keys)))))"

definition put_dependencies ::
  "string \<Rightarrow> string \<Rightarrow> bool \<Rightarrow> (dependency_rec list, string) message \<Rightarrow> unit cmd" where
  "put_dependencies modpath addr running message =
     (if running then ret ()
      else (let cmd = ''result = Process.findModuleByAddress('' @ quote @ addr @ quote
                        @ '').enumerateDependencies();'' in
            run_script_with_data ''list_dependencies'' cmd modpath put_dependencies_callback message))"

definition ghidra_trace_put_dependencies ::
  "string \<Rightarrow> string \<Rightarrow> (dependency_rec list, string) message \<Rightarrow> unit cmd" where
  "ghidra_trace_put_dependencies modpath addr message =
     cbind require_tx (\<lambda>_. batch (put_dependencies modpath addr False message))"


section \<open>commands.py: threads and frames\<close>

text \<open>\<open>'{:x}'.format(v)\<close> on a dynamic value: an int or a boolean formats, a string or \<open>None\<close> raises.\<close>

fun py_format_x :: "pyval \<Rightarrow> error + string" where
  "py_format_x (PInt n) = Inr (format_x n)"
| "py_format_x (PBool b) = Inr (if b then ''1'' else ''0'')"
| "py_format_x (PStr s) = Inl ValueError"
| "py_format_x PNone = Inl TypeError"

definition append_opt :: "string \<Rightarrow> string option \<Rightarrow> string" where
  "append_opt display v = (case v of None \<Rightarrow> display | Some s \<Rightarrow> display @ '' '' @ s)"

definition compute_thread_display :: "int \<Rightarrow> pyval \<Rightarrow> int \<Rightarrow> thread_rec \<Rightarrow> error + string" where
  "compute_thread_display i pid tid t =
     (case py_format_x pid of
        Inl e \<Rightarrow> Inl e
      | Inr p \<Rightarrow>
          Inr (append_opt (append_opt (str_int i @ '' '' @ p @ '':'' @ format_x tid) (t_name t))
                 (t_state t)))"

text \<open>
  The register loop of \<open>put_threads_callback\<close>: every register is set on the object
  first; the ones whose value converts are appended to \<open>values\<close>.
\<close>

definition put_threads_register ::
  "register_mapper \<Rightarrow> pyval \<Rightarrow> string \<Rightarrow> string \<times> string \<Rightarrow> RegVal list \<Rightarrow> RegVal list cmd" where
  "put_threads_register mapper pid regs r vals =
     cseq (set_value regs (fst r) (Val (PStr (snd r))))
       (case py_int (snd r) 0 of
          Inl _ \<Rightarrow> ret vals
        | Inr n \<Rightarrow>
            (case map_value mapper pid (Some (fst r)) n of
               Inl _ \<Rightarrow> ret vals
             | Inr rv \<Rightarrow> ret (vals @ [rv])))"

definition put_threads_callback :: "(thread_rec list, 'd) message \<Rightarrow> unit cmd" where
  "put_threads_callback message =
     (let values = get_values_from_callback message in
      cbind get_world (\<lambda>w.
      let sid = selected_session w; pid = selected_process w in
      cbind (for_each (iterate values) ([], 0) (\<lambda>t (keys, i).
         let tid = t_id t; nm = t_name t; context = t_context t in
         cseq (select_thread (PInt tid))
        (cbind (lift (str_format THREAD_PATTERN (thread_kw sid pid (PInt tid)))) (\<lambda>tpath.
         cseq (create_object tpath)
        (cbind (lift (str_format THREAD_KEY_PATTERN [(''tid'', str_int tid)])) (\<lambda>key.
         cseq (set_value tpath ''_tid'' (Val (PInt tid)))
        (cseq (set_value tpath ''Name'' (Val (opt_str nm)))
        (cbind (lift (py_format_x pid)) (\<lambda>p.
         cseq (set_value tpath ''_short_display''
                 (Val (PStr (format_x i @ '' '' @ p @ '':'' @ format_x tid))))
        (cbind (lift (compute_thread_display i pid tid t)) (\<lambda>display.
         cseq (set_value tpath ''_display'' (Val (PStr display)))
        (cseq (set_value tpath ''_state'' (Val (PStr (compute_proc_state tid))))
        (cseq (insert_obj tpath)
        (cbind (lift (str_format REGS_PATTERN (thread_kw sid pid (PInt tid)))) (\<lambda>sp.
         cseq (create_overlay_space ''register'' sp)
        (cseq (create_object sp)
        (cseq (insert_obj sp)
        (cbind get_trace (\<lambda>tr.
         cbind (for_each context [] (put_threads_register (register_mapper tr) pid sp)) (\<lambda>vals.
         cseq (trace_call (PutRegisters sp vals))
        (cseq (create_and_insert (tpath @ ''.Stack''))
              (ret (keys @ [key], i + 1)))))))))))))))))))))))
     (\<lambda>(keys, i).
      cbind (lift (str_format THREADS_PATTERN (proc_kw sid pid))) (\<lambda>path.
      proxy_retain_values path keys))))"

definition put_threads :: "bool \<Rightarrow> (thread_rec list, 'd) message \<Rightarrow> unit cmd" where
  "put_threads running message =
     (if running then ret ()
      else (let cmd = ''result = Process.enumerateThreads();'' in
            run_script ''list_threads'' cmd put_threads_callback message))"

definition ghidra_trace_put_threads :: "(thread_rec list, 'd) message \<Rightarrow> unit cmd" where
  "ghidra_trace_put_threads message = cbind require_tx (\<lambda>_. batch (put_threads False message))"

record frame_rec =
  fr_address :: string
  fr_name :: "string option"
  fr_moduleName :: "string option"
  fr_fileName :: "string option"
  fr_lineNumber :: "int option"
  fr_column :: "int option"

definition compute_frame_display :: "int \<Rightarrow> frame_rec \<Rightarrow> string" where
  "compute_frame_display i f =
     append_opt
       (append_opt
          (append_opt
             (append_opt
                (append_opt (''#'' @ str_int i @ '' '' @ fr_address f) (fr_name f))
                (fr_moduleName f))
             (fr_fileName f))
          (map_option str_int (fr_lineNumber f)))
       (map_option str_int (fr_column f))"

definition set_optional_int :: "string \<Rightarrow> string \<Rightarrow> int option \<Rightarrow> unit cmd" where
  "set_optional_int path key v =
     (case v of None \<Rightarrow> ret () | Some n \<Rightarrow> set_value path key (Val (PInt n)))"

definition put_frames_callback :: "(frame_rec list, 'd) message \<Rightarrow> unit cmd" where
  "put_frames_callback message =
     (let values = get_values_from_callback message in
      cbind get_world (\<lambda>w.
      let sid = selected_session w; pid = selected_process w; tid = selected_thread w in
      cbind get_trace (\<lambda>tr.
      let mapper = memory_mapper tr in
      cbind (for_each (iterate values) ([], 0) (\<lambda>f (keys, level).
         let addr = fr_address f in
         cbind (lift (str_format FRAME_PATTERN (thread_kw sid pid tid @ [(''level'', str_int level)]))) (\<lambda>fpath.
         cseq (create_object fpath)
        (cbind (lift (str_format FRAME_KEY_PATTERN [(''level'', str_int level)])) (\<lambda>key.
         cbind (map_base mapper pid addr) (\<lambda>pc.
         cseq (cseqs
                [set_value fpath ''_pc'' (Addr pc),
                 set_optional fpath ''Name'' (fr_name f),
                 set_optional fpath ''_func'' (fr_moduleName f),
                 set_optional fpath ''Module'' (fr_moduleName f),
                 set_optional fpath ''File'' (fr_fileName f),
                 set_optional_int fpath ''Line #'' (fr_lineNumber f),
                 set_optional_int fpath ''Column #'' (fr_column f),
                 set_value fpath ''_display'' (Val (PStr (compute_frame_display level f))),
                 insert_obj fpath])
              (ret (keys @ [key], level + 1))))))))
     (\<lambda>(keys, level).
      cbind (lift (str_format FRAMES_PATTERN (thread_kw sid pid tid))) (\<lambda>path.
      proxy_retain_values path keys)))))"

definition put_frames :: "(frame_rec list, 'd) message \<Rightarrow> unit cmd" where
  "put_frames message =
     (let cmd = ''result = Thread.backtrace(this.context, Backtracer.ACCURATE).map(DebugSymbol.fromAddress);'' in
      run_script ''list_frames'' cmd put_frames_callback message)"

definition ghidra_trace_put_frames :: "(frame_rec list, 'd) message \<Rightarrow> unit cmd" where
  "ghidra_trace_put_frames message = cbind require_tx (\<lambda>_. batch (put_frames message))"

definition map_address :: "int \<Rightarrow> (string \<times> Address) cmd" where
  "map_address address =
     cbind get_world (\<lambda>w.
     let pid = selected_process w in
     cbind get_trace (\<lambda>tr.
     let mapper = memory_mapper tr;
         (base, addr) = DefaultMemoryMapper_map mapper pid address in
     cseq (cwhen (base \<noteq> space addr) (create_overlay_space base (space addr)))
          (ret (base, addr))))"

text \<open>
  \<open>ghidra_trace_disassemble\<close> and \<open>ghidra_trace_delmem\<close>. The overlay branch of the
  first names a variable \<open>trace\<close> that is not defined there.
\<close>

definition ghidra_trace_disassemble :: "arg \<Rightarrow> unit cmd" where
  "ghidra_trace_disassemble address =
     cbind require_tx (\<lambda>_.
     cbind (lift (eval_address address)) (\<lambda>start.
     cbind get_world (\<lambda>w.
     let pid = selected_process w in
     cbind get_trace (\<lambda>tr.
     let (base, addr) = DefaultMemoryMapper_map (memory_mapper tr) pid start in
     cseq (cwhen (base \<noteq> space addr) (raise (NameError ''trace'')))
          (trace_call (Disassemble addr))))))"

definition ghidra_trace_delmem :: "arg \<Rightarrow> arg \<Rightarrow> unit cmd" where
  "ghidra_trace_delmem address len =
     cbind require_tx (\<lambda>_.
     cbind (lift (eval_range address len)) (\<lambda>(start, stop).
     cbind get_world (\<lambda>w.
     let pid = selected_process w in
     cbind get_trace (\<lambda>tr.
     let (base, addr) = DefaultMemoryMapper_map (memory_mapper tr) pid start in
     trace_call (DeleteBytes (Range addr (stop - start)))))))"


section \<open>commands.py: loaded classes and class loaders\<close>

record class_rec =
  c_name :: "string option"
  c_path :: "string option"
  c_methods :: "string list option"

text \<open>
  The key of a class is its path when it has one, else its name, else \<open>None\<close>, which
  \<open>format\<close> prints as \<open>None\<close>.
\<close>

definition class_key :: "class_rec \<Rightarrow> string" where
  "class_key c =
     (case c_path c of
        Some path \<Rightarrow> path
      | None \<Rightarrow> (case c_name c of Some nm \<Rightarrow> nm | None \<Rightarrow> ''None''))"

definition or_empty :: "string option \<Rightarrow> string" where
  "or_empty v = (case v of None \<Rightarrow> '''' | Some s \<Rightarrow> s)"

text \<open>
  \<open>put_loaded_classes_callback\<close>. The loop over the methods of a class appends each
  method key to \<open>keys\<close>, the list of the class container; \<open>mkeys\<close> is created empty,
  never appended to, and passed to the retention of the class's \<open>Methods\<close> container.
\<close>

definition put_loaded_classes_callback :: "(class_rec list, 'd) message \<Rightarrow> unit cmd" where
  "put_loaded_classes_callback message =
     (let values = get_values_from_callback message in
      cbind get_world (\<lambda>w.
      let sid = selected_session w; pid = selected_process w in
      cbind get_trace (\<lambda>tr.
      cbind (for_each (iterate values) [] (\<lambda>c keys.
         let key = class_key c; nm = or_empty (c_name c); path = or_empty (c_path c) in
         cbind (lift (str_format CLASS_PATTERN (proc_kw sid pid @ [(''path'', key)]))) (\<lambda>cpath.
         cseq (create_object cpath)
        (cbind (lift (str_format CLASS_KEY_PATTERN [(''path'', key)])) (\<lambda>ckey.
         cseq (cseqs
                [set_value cpath ''Name'' (Val (PStr nm)),
                 set_value cpath ''Path'' (Val (PStr path)),
                 set_value cpath ''_display'' (Val (PStr path)),
                 insert_obj cpath])
           (let mkeys = [] in
            (case c_methods c of
               None \<Rightarrow> ret (keys @ [ckey])
             | Some methods \<Rightarrow>
                 cbind (for_each methods (keys @ [ckey]) (\<lambda>m keys.
                    cbind (lift (str_format METHOD_PATTERN
                                   (proc_kw sid pid @ [(''path'', key), (''name'', m)]))) (\<lambda>mpath.
                    cseq (create_object mpath)
                   (cbind (lift (str_format METHOD_KEY_PATTERN [(''name'', m)])) (\<lambda>mkey.
                    cseq (insert_obj mpath) (ret (keys @ [mkey])))))))
                (\<lambda>keys.
                 cbind (lift (str_format METHODS_PATTERN (proc_kw sid pid @ [(''path'', key)]))) (\<lambda>path.
                 cseq (proxy_retain_values path mkeys) (ret keys))))))))))
     (\<lambda>keys.
      cbind (lift (str_format CLASSES_PATTERN (proc_kw sid pid))) (\<lambda>path.
      proxy_retain_values path keys)))))"

definition put_loaded_classes_objc :: "bool \<Rightarrow> (class_rec list, 'd) message \<Rightarrow> unit cmd" where
  "put_loaded_classes_objc running message =
     (if running then ret ()
      else (let cmd = ''result = ObjC.enumerateLoadedClassesSync();'' in
            run_script ''list_loaded_classes'' cmd put_loaded_classes_callback message))"

definition ghidra_trace_put_loaded_classes_objc :: "(class_rec list, 'd) message \<Rightarrow> unit cmd" where
  "ghidra_trace_put_loaded_classes_objc message =
     cbind require_tx (\<lambda>_. batch (put_loaded_classes_objc False message))"

definition put_loaded_classes_java :: "bool \<Rightarrow> (class_rec list, 'd) message \<Rightarrow> unit cmd" where
  "put_loaded_classes_java running message =
     (if running then ret ()
      else (let cmd = ''result = Java.enumerateLoadedClassesSync();'' in
            run_script ''list_loaded_classes'' cmd put_loaded_classes_callback message))"

definition ghidra_trace_put_loaded_classes_java :: "(class_rec list, 'd) message \<Rightarrow> unit cmd" where
  "ghidra_trace_put_loaded_classes_java message =
     cbind require_tx (\<lambda>_. batch (put_loaded_classes_java False message))"

text \<open>
  \<open>put_class_loaders_callback\<close>. The key it appends is formatted from a variable
  \<open>key\<close> that the function never assigns: evaluating it raises \<open>NameError\<close>, after the
  loader's object has been created and before it is inserted.
\<close>

definition put_class_loaders_callback :: "(string list, 'd) message \<Rightarrow> unit cmd" where
  "put_class_loaders_callback message =
     (let values = get_values_from_callback message in
      cbind get_world (\<lambda>w.
      let sid = selected_session w; pid = selected_process w in
      cbind get_trace (\<lambda>tr.
      cbind (for_each (iterate values) [] (\<lambda>l keys.
         cbind (lift (str_format LOADER_PATTERN (proc_kw sid pid @ [(''path'', l)]))) (\<lambda>lpath.
         cseq (create_object lpath)
              (raise (NameError ''key'')))))
     (\<lambda>keys.
      cbind (lift (str_format LOADERS_PATTERN (proc_kw sid pid))) (\<lambda>path.
      proxy_retain_values path keys)))))"

definition put_class_loaders_java :: "bool \<Rightarrow> (string list, 'd) message \<Rightarrow> unit cmd" where
  "put_class_loaders_java running message =
     (if running then ret ()
      else (let cmd = ''result = Java.enumerateClassLoadersSync();'' in
            run_script ''list_loaded_classes'' cmd put_class_loaders_callback message))"

definition ghidra_trace_put_class_loaders_java :: "(string list, 'd) message \<Rightarrow> unit cmd" where
  "ghidra_trace_put_class_loaders_java message =
     cbind require_tx (\<lambda>_. batch (put_class_loaders_java False message))"


section \<open>commands.py: putting everything\<close>

text \<open>The replies \<open>ghidra_trace_put_all\<close> consumes, one per query it makes.\<close>

record all_replies =
  a_devices :: "device_rec list"
  a_attributes :: "((string \<times> pyval) list, unit) message"
  a_parameters :: "(string \<times> param) list option"
  a_available :: "proc_rec list"
  a_applications :: "proc_rec list"
  a_ranges :: "(range_rec list, unit) message"
  a_modules :: "(module_rec list, unit) message"
  a_threads :: "(thread_rec list, unit) message"
  a_frames :: "(frame_rec list, unit) message"

definition ghidra_trace_put_all :: "all_replies \<Rightarrow> unit cmd" where
  "ghidra_trace_put_all r =
     cbind require_tx (\<lambda>_.
       batch (cseqs
         [put_sessions (a_devices r),
          put_session_attributes (a_attributes r),
          put_environment (a_parameters r),
          put_available (a_available r),
          put_applications (a_applications r),
          put_processes False,
          put_regions False (a_ranges r),
          put_modules False (a_modules r),
          put_threads False (a_threads r),
          put_frames (a_frames r)]))"


section \<open>Example inputs\<close>

text \<open>
  A session as it stands after attaching to process 1234 on an x86-64 target: client
  connected, trace started with the mappers \<open>start_trace\<close> computes for
  \<open>x86:LE:64:default\<close>, process selected, no thread selected. \<open>example_world\<close> has a
  transaction open, \<open>example_world_no_tx\<close> has none.
\<close>

definition example_trace :: trace where
  "example_trace =
     \<lparr>memory_mapper = compute_memory_mapper ''x86:LE:64:default'',
      register_mapper = Intel_x86_64_RegisterMapper\<rparr>"

definition example_world_no_tx :: world where
  "example_world_no_tx =
     \<lparr>STATE_client = True,
      STATE_trace = Some example_trace,
      STATE_tx = None,
      conv_map = Map.empty,
      current_state = [''sid'' \<mapsto> PStr ''local'', ''pid'' \<mapsto> PInt 1234,
                       ''tid'' \<mapsto> PNone, ''fid'' \<mapsto> PNone],
      targets = [PInt 1234],
      processes = [],
      last_address = 0,
      last_length = 4096,
      events = []\<rparr>"

definition example_world :: world where
  "example_world = example_world_no_tx\<lparr>STATE_tx := Some ''tx''\<rparr>"

definition example_class :: class_rec where
  "example_class = \<lparr>c_name = Some ''Foo'', c_path = None, c_methods = Some [''bar'']\<rparr>"

definition example_range :: range_rec where
  "example_range = \<lparr>r_base = ''0x1000'', r_size = 4096, r_protection = ''rw-'', r_file = None\<rparr>"

definition example_env :: "string \<Rightarrow> string \<Rightarrow> string option \<Rightarrow> env" where
  "example_env arch platform endian =
     \<lparr>conv = (case endian of None \<Rightarrow> Map.empty | Some en \<Rightarrow> [''endian'' \<mapsto> Some en]),
      system_parameters = Some [(''arch'', Flat (PStr arch)), (''platform'', Flat (PStr platform))]\<rparr>"

text \<open>
  Checks on the language table, as functions so that they can be run over it: the
  candidate picked for a tag is no longer than any default-tagged candidate of that tag,
  and no candidate carries both tags.
\<close>

definition rank_ok :: "string \<Rightarrow> string list \<Rightarrow> bool" where
  "rank_ok lebe langs =
     (case matched_endian lebe langs of
        [] \<Rightarrow> True
      | l # _ \<Rightarrow> list_all (\<lambda>m. str_in lebe m \<and> endswith m '':default''
                   \<longrightarrow> length l \<le> length m) langs)"

definition one_tag :: "string list \<Rightarrow> bool" where
  "one_tag langs = list_all (\<lambda>l. \<not> (str_in '':BE:'' l \<and> str_in '':LE:'' l)) langs"


text \<open>
  What the regions and the dependencies operation are expected to request for one
  record, written out directly: the object at the container's path followed by the
  record's key, its values, its insertion.
\<close>

definition parsed_base :: "string \<Rightarrow> int" where
  "parsed_base base = (case py_int base 0 of Inl _ \<Rightarrow> 0 | Inr n \<Rightarrow> n)"

definition region_container :: "pyval \<Rightarrow> pyval \<Rightarrow> string" where
  "region_container sid pid =
     ''Sessions['' @ py_str sid @ ''].Processes['' @ py_str pid @ ''].Memory''"

definition region_key :: "range_rec \<Rightarrow> string" where
  "region_key r = ''['' @ r_base r @ '']''"

definition region_events :: "string \<Rightarrow> string \<Rightarrow> range_rec \<Rightarrow> event list" where
  "region_events container sp r =
     (let rpath = container @ region_key r;
          base_addr = \<lparr>space = sp, offset = parsed_base (r_base r)\<rparr> in
      [CreateObject rpath,
       SetValue rpath ''_offset'' (Addr base_addr),
       SetValue rpath ''_range'' (Range base_addr (r_size r)),
       SetValue rpath ''Base'' (Val (PStr (r_base r))),
       SetValue rpath ''Size'' (Val (PStr (hex (r_size r)))),
       SetValue rpath ''Protection'' (Val (PStr (r_protection r)))]
      @ (case r_file r of
           None \<Rightarrow> []
         | Some f \<Rightarrow> [SetValue rpath ''File'' (Val (PStr (file_display f)))])
      @ [SetValue rpath ''_display'' (Val (PStr (region_display (r_base r) (r_size r) (r_protection r)))),
         Insert rpath])"

definition region_update :: "string \<Rightarrow> string \<Rightarrow> range_rec \<Rightarrow> world \<Rightarrow> world" where
  "region_update container sp r w =
     w\<lparr>current_state := (current_state w)(r_base r \<mapsto> PInt (r_size r)),
       events := events w @ region_events container sp r\<rparr>"

definition dependency_container :: "pyval \<Rightarrow> pyval \<Rightarrow> string option \<Rightarrow> string" where
  "dependency_container sid pid cbdata =
     ''Sessions['' @ py_str sid @ ''].Processes['' @ py_str pid @ ''].Modules['' @ data_str cbdata
       @ ''].Dependencies''"

definition dependency_key :: "dependency_rec \<Rightarrow> string" where
  "dependency_key dep = ''['' @ d_name dep @ '']''"

definition dependency_events :: "string \<Rightarrow> dependency_rec \<Rightarrow> event list" where
  "dependency_events container dep =
     (let dpath = container @ dependency_key dep in
      [CreateObject dpath,
       SetValue dpath ''Name'' (Val (PStr (d_name dep))),
       SetValue dpath ''Type'' (Val (PStr (d_type dep))),
       SetValue dpath ''_display'' (Val (PStr (d_name dep @ '' ''))),
       Insert dpath])"


section \<open>Facts about the language table and the resolver\<close>

lemma language_map_rank_ok:
  "list_all (\<lambda>(k, langs). rank_ok '':BE:'' langs \<and> rank_ok '':LE:'' langs) language_map"
  by code_simp

lemma language_map_one_tag: "list_all (\<lambda>(k, langs). one_tag langs) language_map"
  by code_simp

lemma sort_key_head:
  assumes "sort_key f xs = y # ys"
  shows "y \<in> set xs \<and> (\<forall>x\<in>set xs. f y \<le> f x)"
proof -
  have s: "set (y # ys) = set xs" using assms set_sort[of f xs] by simp
  have "sorted (map f (y # ys))" using assms sorted_sort_key[of f xs] by simp
  then have "\<forall>z\<in>set ys. f y \<le> f z" by simp
  then have "\<forall>x\<in>set (y # ys). f y \<le> f x" by simp
  with s show ?thesis by auto
qed

lemma matched_endian_head:
  assumes "matched_endian lebe langs = l # rest"
  shows "l \<in> set langs \<and> str_in lebe l
         \<and> (\<forall>m\<in>set langs. str_in lebe m \<longrightarrow> lang_key l \<le> lang_key m)"
  using sort_key_head[OF assms[unfolded matched_endian_def]] by auto

lemma matched_endian_nonempty:
  assumes "m \<in> set langs" "str_in lebe m"
  shows "matched_endian lebe langs \<noteq> []"
proof
  assume "matched_endian lebe langs = []"
  then have "set (sort_key lang_key (filter (\<lambda>l. str_in lebe l) langs)) = {}"
    by (simp add: matched_endian_def)
  then have "set (filter (\<lambda>l. str_in lebe l) langs) = {}" by simp
  with assms show False by auto
qed

lemma matched_endian_empty:
  assumes "\<forall>m\<in>set langs. \<not> str_in lebe m"
  shows "matched_endian lebe langs = []"
proof -
  have "filter (\<lambda>l. str_in lebe l) langs = []" using assms by (simp add: filter_empty_conv)
  then show ?thesis by (simp add: matched_endian_def)
qed

lemma lebe_of_cases: "lebe_of en = '':BE:'' \<or> lebe_of en = '':LE:''"
  by (simp add: lebe_of_def)

lemma table_entry:
  assumes "map_of language_map arch = Some langs"
  shows "rank_ok (lebe_of en) langs \<and> one_tag langs"
proof -
  have mem: "(arch, langs) \<in> set language_map" using assms by (rule map_of_SomeD)
  have r: "rank_ok '':BE:'' langs \<and> rank_ok '':LE:'' langs"
    using language_map_rank_ok mem unfolding list_all_iff by fastforce
  have o: "one_tag langs"
    using language_map_one_tag mem unfolding list_all_iff by fastforce
  from r o lebe_of_cases[of en] show ?thesis by auto
qed

lemma example_env_reads:
  "get_convenience_variable (conv (example_env arch platform endian)) ''ghidra-language'' = ''auto''"
  "get_convenience_variable (conv (example_env arch platform endian)) ''ghidra-compiler'' = ''auto''"
  "get_arch (example_env arch platform endian) = Inr (Flat (PStr arch))"
  "get_osabi (example_env arch platform endian) = Inr (Flat (PStr platform))"
  "get_endian (example_env arch platform None) = ''little''"
  "get_endian (example_env arch platform (Some ''big'')) = ''big''"
  by (simp_all add: example_env_def get_convenience_variable_def get_arch_def get_osabi_def
        get_endian_def split: option.splits)


section \<open>Language resolution\<close>

text \<open>
  C3, as stated, fails: for the table key \<open>x64\<close> and endianness \<open>big\<close> no candidate of
  the key matches, and the resolver answers the data-only language, which is not in the
  key's list.
\<close>

theorem compute_ghidra_language_x64_big_counterexample:
  "get_convenience_variable (conv (example_env ''x64'' ''linux'' (Some ''big''))) ''ghidra-language'' = ''auto''
   \<and> get_arch (example_env ''x64'' ''linux'' (Some ''big'')) = Inr (Flat (PStr ''x64''))
   \<and> get_endian (example_env ''x64'' ''linux'' (Some ''big'')) = ''big''
   \<and> map_of language_map ''x64'' = Some [''x86:LE:64:default'']
   \<and> compute_ghidra_language (example_env ''x64'' ''linux'' (Some ''big'')) = Inr ''DATA:BE:64:default''
   \<and> ''DATA:BE:64:default'' \<noteq> ''x86:LE:64:default''"
proof -
  have tab: "map_of language_map ''x64'' = Some [''x86:LE:64:default'']"
    by (simp add: language_map_def)
  have m: "matched_endian '':BE:'' [''x86:LE:64:default''] = []"
    by (simp add: matched_endian_def)
  have "compute_ghidra_language (example_env ''x64'' ''linux'' (Some ''big'')) = Inr ''DATA:BE:64:default''"
    using tab m by (simp add: compute_ghidra_language_def example_env_reads lookup_param_def lebe_of_def)
  then show ?thesis using tab by (simp add: example_env_reads)
qed

text \<open>
  C3, amended: for a raw architecture that is a key of the language table, a resolved
  endianness of \<open>big\<close> or \<open>little\<close>, no language override, and at least one candidate
  of the key carrying the tag of that endianness, \<open>compute_ghidra_language\<close> returns a
  candidate of the key that carries the tag. If some matching candidate is tagged
  \<open>default\<close>, the result is tagged \<open>default\<close> and no matching default-tagged candidate
  is shorter; if none is, no matching candidate is shorter than the result.
\<close>

theorem compute_ghidra_language_matching_candidate:
  assumes auto: "get_convenience_variable (conv e) ''ghidra-language'' = ''auto''"
    and arch: "get_arch e = Inr (Flat (PStr arch))"
    and tab: "map_of language_map arch = Some langs"
    and en: "get_endian e = ''big'' \<or> get_endian e = ''little''"
    and some: "\<exists>m\<in>set langs. str_in (lebe_of (get_endian e)) m"
  shows "\<exists>l. compute_ghidra_language e = Inr l
           \<and> l \<in> set langs
           \<and> str_in (lebe_of (get_endian e)) l
           \<and> ((\<exists>m\<in>set langs. str_in (lebe_of (get_endian e)) m \<and> endswith m '':default'')
                \<longrightarrow> endswith l '':default''
                    \<and> (\<forall>m\<in>set langs. str_in (lebe_of (get_endian e)) m \<and> endswith m '':default''
                          \<longrightarrow> length l \<le> length m))
           \<and> ((\<forall>m\<in>set langs. str_in (lebe_of (get_endian e)) m \<longrightarrow> \<not> endswith m '':default'')
                \<longrightarrow> (\<forall>m\<in>set langs. str_in (lebe_of (get_endian e)) m \<longrightarrow> length l \<le> length m))"
proof -
  let ?lebe = "lebe_of (get_endian e)"
  from some obtain m0 where m0: "m0 \<in> set langs" "str_in ?lebe m0" by blast
  then have "matched_endian ?lebe langs \<noteq> []" by (rule matched_endian_nonempty)
  then obtain l rest where hd: "matched_endian ?lebe langs = l # rest"
    by (cases "matched_endian ?lebe langs") auto
  have res: "compute_ghidra_language e = Inr l"
    using auto arch tab hd by (simp add: compute_ghidra_language_def lookup_param_def)
  from matched_endian_head[OF hd]
  have lin: "l \<in> set langs" and ltag: "str_in ?lebe l"
    and lmin: "\<forall>m\<in>set langs. str_in ?lebe m \<longrightarrow> lang_key l \<le> lang_key m" by auto
  have rk: "rank_ok ?lebe langs" using table_entry[OF tab] by simp
  then have short: "\<forall>m\<in>set langs. str_in ?lebe m \<and> endswith m '':default'' \<longrightarrow> length l \<le> length m"
    using hd by (simp add: rank_ok_def list_all_iff)
  have pos: "0 < length l" using ltag lebe_of_cases[of "get_endian e"] by (cases l) auto
  have dflt: "endswith l '':default''"
    if "m \<in> set langs" "str_in ?lebe m" "endswith m '':default''" for m
  proof (rule ccontr)
    assume "\<not> endswith l '':default''"
    then have "lang_key l = length l" by (simp add: lang_key_def)
    moreover have "lang_key m = 0" using that by (simp add: lang_key_def)
    moreover have "lang_key l \<le> lang_key m" using lmin that by blast
    ultimately show False using pos by simp
  qed
  have nodflt: "length l \<le> length m"
    if nd: "\<forall>m\<in>set langs. str_in ?lebe m \<longrightarrow> \<not> endswith m '':default''"
      and m: "m \<in> set langs" "str_in ?lebe m" for m
  proof -
    have "lang_key l = length l" using nd lin ltag by (simp add: lang_key_def)
    moreover have "lang_key m = length m" using nd m by (simp add: lang_key_def)
    moreover have "lang_key l \<le> lang_key m" using lmin m by blast
    ultimately show ?thesis by simp
  qed
  show ?thesis
    using res lin ltag short dflt nodflt by blast
qed

theorem compute_ghidra_language_matching_candidate_witness:
  "get_convenience_variable (conv (example_env ''mips:5000'' ''linux'' None)) ''ghidra-language'' = ''auto''
   \<and> get_arch (example_env ''mips:5000'' ''linux'' None) = Inr (Flat (PStr ''mips:5000''))
   \<and> map_of language_map ''mips:5000''
        = Some [''MIPS:BE:64:64-32addr'', ''MIPS:BE:64:default'', ''MIPS:LE:64:64-32addr'', ''MIPS:LE:64:default'']
   \<and> get_endian (example_env ''mips:5000'' ''linux'' None) = ''little''
   \<and> str_in (lebe_of ''little'') ''MIPS:LE:64:default''
   \<and> compute_ghidra_language (example_env ''mips:5000'' ''linux'' None) = Inr ''MIPS:LE:64:default''"
proof -
  let ?e = "example_env ''mips:5000'' ''linux'' None"
  let ?langs = "[''MIPS:BE:64:64-32addr'', ''MIPS:BE:64:default'', ''MIPS:LE:64:64-32addr'', ''MIPS:LE:64:default'']"
  have h1: "get_convenience_variable (conv ?e) ''ghidra-language'' = ''auto''"
    by (simp add: example_env_reads)
  have h2: "get_arch ?e = Inr (Flat (PStr ''mips:5000''))"
    by (simp add: example_env_reads)
  have h4: "get_endian ?e = ''big'' \<or> get_endian ?e = ''little''"
    by (simp add: example_env_reads)
  have en: "get_endian ?e = ''little''"
    by (simp add: example_env_reads)
  have tab: "map_of language_map ''mips:5000'' = Some ?langs"
    by (simp add: language_map_def)
  have tag: "str_in (lebe_of ''little'') ''MIPS:LE:64:default''"
    by (simp add: lebe_of_def)
  have some: "\<exists>m\<in>set ?langs. str_in (lebe_of (get_endian ?e)) m"
    using tag en by simp
  have m: "matched_endian '':LE:'' ?langs = [''MIPS:LE:64:default'', ''MIPS:LE:64:64-32addr'']"
    by (simp add: matched_endian_def lang_key_def endswith_def suffix_to_prefix)
  have res: "compute_ghidra_language ?e = Inr ''MIPS:LE:64:default''"
    using h1 h2 en tab m by (simp add: compute_ghidra_language_def lookup_param_def lebe_of_def)
  from compute_ghidra_language_matching_candidate[OF h1 h2 tab h4 some]
  obtain l where l: "compute_ghidra_language ?e = Inr l" "l \<in> set ?langs"
    by blast
  from l(1) res have "l = ''MIPS:LE:64:default''" by simp
  with l(1) h1 h2 tab en tag show ?thesis by simp
qed

text \<open>
  C4: with no language override, when the raw architecture is not a key of the language
  table, or is one but no candidate of it carries the tag of the resolved endianness,
  \<open>compute_ghidra_language\<close> returns \<open>DATA\<close>, the tag, \<open>64:default\<close>, which is
  \<open>DATA:BE:64:default\<close> for \<open>big\<close> and \<open>DATA:LE:64:default\<close> for \<open>little\<close>; and
  whatever the architecture, the language returned carries the tag of the resolved
  endianness and not the other one.
\<close>

theorem compute_ghidra_language_fallback:
  assumes auto: "get_convenience_variable (conv e) ''ghidra-language'' = ''auto''"
    and arch: "get_arch e = Inr (Flat (PStr arch))"
  shows "(map_of language_map arch = None
            \<or> (\<exists>langs. map_of language_map arch = Some langs
                  \<and> (\<forall>m\<in>set langs. \<not> str_in (lebe_of (get_endian e)) m))
          \<longrightarrow> compute_ghidra_language e = Inr (''DATA'' @ lebe_of (get_endian e) @ ''64:default''))
       \<and> ''DATA'' @ lebe_of ''big'' @ ''64:default'' = ''DATA:BE:64:default''
       \<and> ''DATA'' @ lebe_of ''little'' @ ''64:default'' = ''DATA:LE:64:default''
       \<and> (\<exists>l. compute_ghidra_language e = Inr l
             \<and> str_in (lebe_of (get_endian e)) l
             \<and> \<not> str_in (if lebe_of (get_endian e) = '':BE:'' then '':LE:'' else '':BE:'') l)"
proof -
  let ?lebe = "lebe_of (get_endian e)"
  let ?other = "if ?lebe = '':BE:'' then '':LE:'' else '':BE:''"
  let ?data = "''DATA'' @ ?lebe @ ''64:default''"
  have absent: "compute_ghidra_language e = Inr ?data" if "map_of language_map arch = None"
    using auto arch that by (simp add: compute_ghidra_language_def lookup_param_def)
  have nomatch: "compute_ghidra_language e = Inr ?data"
    if "map_of language_map arch = Some langs" "\<forall>m\<in>set langs. \<not> str_in ?lebe m" for langs
    using auto arch that matched_endian_empty[of langs ?lebe]
    by (simp add: compute_ghidra_language_def lookup_param_def)
  have data_tag: "str_in ?lebe ?data \<and> \<not> str_in ?other ?data"
    using lebe_of_cases[of "get_endian e"] by auto
  have "\<exists>l. compute_ghidra_language e = Inr l \<and> str_in ?lebe l \<and> \<not> str_in ?other l"
  proof (cases "map_of language_map arch")
    case None
    then show ?thesis using absent data_tag by simp
  next
    case (Some langs)
    show ?thesis
    proof (cases "matched_endian ?lebe langs")
      case Nil
      then have "compute_ghidra_language e = Inr ?data"
        using auto arch Some by (simp add: compute_ghidra_language_def lookup_param_def)
      then show ?thesis using data_tag by simp
    next
      case (Cons l rest)
      then have res: "compute_ghidra_language e = Inr l"
        using auto arch Some by (simp add: compute_ghidra_language_def lookup_param_def)
      from matched_endian_head[OF Cons] have lin: "l \<in> set langs" and ltag: "str_in ?lebe l" by auto
      have "one_tag langs" using table_entry[OF Some] by simp
      then have "\<not> (str_in '':BE:'' l \<and> str_in '':LE:'' l)"
        using lin by (simp add: one_tag_def list_all_iff)
      then have "\<not> str_in ?other l" using ltag lebe_of_cases[of "get_endian e"] by auto
      then show ?thesis using res ltag by simp
    qed
  qed
  moreover have "''DATA'' @ lebe_of ''big'' @ ''64:default'' = ''DATA:BE:64:default''"
    by (simp add: lebe_of_def)
  moreover have "''DATA'' @ lebe_of ''little'' @ ''64:default'' = ''DATA:LE:64:default''"
    by (simp add: lebe_of_def)
  ultimately show ?thesis using absent nomatch by blast
qed

theorem compute_ghidra_language_fallback_witness:
  "get_convenience_variable (conv (example_env ''wasm32'' ''linux'' (Some ''big''))) ''ghidra-language'' = ''auto''
   \<and> get_arch (example_env ''wasm32'' ''linux'' (Some ''big'')) = Inr (Flat (PStr ''wasm32''))
   \<and> map_of language_map ''wasm32'' = None
   \<and> compute_ghidra_language (example_env ''wasm32'' ''linux'' (Some ''big'')) = Inr ''DATA:BE:64:default''
   \<and> get_arch (example_env ''armv7e-m'' ''linux'' (Some ''big'')) = Inr (Flat (PStr ''armv7e-m''))
   \<and> map_of language_map ''armv7e-m'' = Some [''ARM:LE:32:Cortex'']
   \<and> compute_ghidra_language (example_env ''armv7e-m'' ''linux'' (Some ''big'')) = Inr ''DATA:BE:64:default''"
proof -
  have t1: "map_of language_map ''wasm32'' = None" by (simp add: language_map_def)
  have t2: "map_of language_map ''armv7e-m'' = Some [''ARM:LE:32:Cortex'']"
    by (simp add: language_map_def)
  have n2: "\<forall>m\<in>set [''ARM:LE:32:Cortex'']. \<not> str_in (lebe_of ''big'') m"
    by (simp add: lebe_of_def)
  have r1: "compute_ghidra_language (example_env ''wasm32'' ''linux'' (Some ''big'')) = Inr ''DATA:BE:64:default''"
    using compute_ghidra_language_fallback[of "example_env ''wasm32'' ''linux'' (Some ''big'')" "''wasm32''"] t1
    by (simp add: example_env_reads lebe_of_def)
  have r2: "compute_ghidra_language (example_env ''armv7e-m'' ''linux'' (Some ''big'')) = Inr ''DATA:BE:64:default''"
    using compute_ghidra_language_fallback[of "example_env ''armv7e-m'' ''linux'' (Some ''big'')" "''armv7e-m''"] t2 n2
    by (simp add: example_env_reads lebe_of_def)
  show ?thesis using r1 r2 t1 t2 by (simp add: example_env_reads)
qed

text \<open>
  C5: with no language or compiler override, raw architecture \<open>x64\<close> and endianness
  \<open>little\<close> resolve to \<open>x86:LE:64:default\<close>; for that language the compiler is
  \<open>windows\<close> when the OS/ABI is \<open>windows\<close> and \<open>gcc\<close> when it is \<open>linux\<close>.
\<close>

theorem compute_ghidra_lcsp_x64:
  assumes "get_convenience_variable (conv e) ''ghidra-language'' = ''auto''"
    and "get_convenience_variable (conv e) ''ghidra-compiler'' = ''auto''"
    and "get_arch e = Inr (Flat (PStr ''x64''))"
    and "get_endian e = ''little''"
  shows "compute_ghidra_language e = Inr ''x86:LE:64:default''
       \<and> (get_osabi e = Inr (Flat (PStr ''windows'')) \<longrightarrow>
            compute_ghidra_compiler e ''x86:LE:64:default'' = Inr ''windows''
          \<and> compute_ghidra_lcsp e = Inr (''x86:LE:64:default'', ''windows''))
       \<and> (get_osabi e = Inr (Flat (PStr ''linux'')) \<longrightarrow>
            compute_ghidra_compiler e ''x86:LE:64:default'' = Inr ''gcc''
          \<and> compute_ghidra_lcsp e = Inr (''x86:LE:64:default'', ''gcc''))"
proof -
  have tab: "map_of language_map ''x64'' = Some [''x86:LE:64:default'']"
    by (simp add: language_map_def)
  have m: "matched_endian '':LE:'' [''x86:LE:64:default''] = [''x86:LE:64:default'']"
    by (simp add: matched_endian_def)
  have lang: "compute_ghidra_language e = Inr ''x86:LE:64:default''"
    using assms tab m by (simp add: compute_ghidra_language_def lookup_param_def lebe_of_def)
  have cm: "map_of compiler_map ''x86:LE:64:default'' = Some x86_compiler_map"
    by (simp add: compiler_map_def)
  have w: "compute_ghidra_compiler e ''x86:LE:64:default'' = Inr ''windows''"
    if "get_osabi e = Inr (Flat (PStr ''windows''))"
    using assms that cm
    by (simp add: compute_ghidra_compiler_def lookup_osabi_def x86_compiler_map_def)
  have g: "compute_ghidra_compiler e ''x86:LE:64:default'' = Inr ''gcc''"
    if "get_osabi e = Inr (Flat (PStr ''linux''))"
    using assms that cm
    by (simp add: compute_ghidra_compiler_def lookup_osabi_def x86_compiler_map_def)
  show ?thesis using lang w g by (simp add: compute_ghidra_lcsp_def)
qed

theorem compute_ghidra_lcsp_x64_witness:
  "get_convenience_variable (conv (example_env ''x64'' ''windows'' None)) ''ghidra-language'' = ''auto''
   \<and> get_convenience_variable (conv (example_env ''x64'' ''windows'' None)) ''ghidra-compiler'' = ''auto''
   \<and> get_arch (example_env ''x64'' ''windows'' None) = Inr (Flat (PStr ''x64''))
   \<and> get_endian (example_env ''x64'' ''windows'' None) = ''little''
   \<and> get_osabi (example_env ''x64'' ''windows'' None) = Inr (Flat (PStr ''windows''))
   \<and> compute_ghidra_lcsp (example_env ''x64'' ''windows'' None) = Inr (''x86:LE:64:default'', ''windows'')
   \<and> get_osabi (example_env ''x64'' ''linux'' None) = Inr (Flat (PStr ''linux''))
   \<and> compute_ghidra_lcsp (example_env ''x64'' ''linux'' None) = Inr (''x86:LE:64:default'', ''gcc'')"
  using compute_ghidra_lcsp_x64[of "example_env ''x64'' ''windows'' None"]
        compute_ghidra_lcsp_x64[of "example_env ''x64'' ''linux'' None"]
  by (simp add: example_env_reads)


section \<open>Memory mapper\<close>

lemma DefaultMemoryMapper_map_flat:
  "DefaultMemoryMapper_map m pid off = (defaultSpace m, \<lparr>space = defaultSpace m, offset = off\<rparr>)"
  by (simp add: DefaultMemoryMapper_map_def)

lemma compute_memory_mapper_default: "compute_memory_mapper lang = DEFAULT_MEMORY_MAPPER"
  by (simp add: compute_memory_mapper_def memory_mappers_def)

text \<open>
  C2: the default mapper has default space \<open>ram\<close>; mapping an offset and mapping the
  address back gives the offset again, for every process id and offset; and for an
  address whose space is not the mapper's default space \<open>map_back\<close> raises
  \<open>ValueError\<close>.
\<close>

theorem DefaultMemoryMapper_round_trip:
  "defaultSpace DEFAULT_MEMORY_MAPPER = ''ram''
   \<and> DefaultMemoryMapper_map_back DEFAULT_MEMORY_MAPPER pid
        (snd (DefaultMemoryMapper_map DEFAULT_MEMORY_MAPPER pid x)) = Inr x
   \<and> (space a \<noteq> defaultSpace DEFAULT_MEMORY_MAPPER \<longrightarrow>
        DefaultMemoryMapper_map_back DEFAULT_MEMORY_MAPPER pid a = Inl ValueError)"
  by (simp add: DEFAULT_MEMORY_MAPPER_def DefaultMemoryMapper_map_def
        DefaultMemoryMapper_map_back_def)

theorem DefaultMemoryMapper_round_trip_witness:
  "space \<lparr>space = ''register'', offset = 4096\<rparr> \<noteq> defaultSpace DEFAULT_MEMORY_MAPPER
   \<and> DefaultMemoryMapper_map_back DEFAULT_MEMORY_MAPPER (PInt 1234)
        \<lparr>space = ''register'', offset = 4096\<rparr> = Inl ValueError
   \<and> DefaultMemoryMapper_map_back DEFAULT_MEMORY_MAPPER (PInt 1234)
        (snd (DefaultMemoryMapper_map DEFAULT_MEMORY_MAPPER (PInt 1234) 4096)) = Inr 4096"
  using DefaultMemoryMapper_round_trip[of "PInt 1234" 4096 "\<lparr>space = ''register'', offset = 4096\<rparr>"]
  by (simp add: DEFAULT_MEMORY_MAPPER_def)

text \<open>
  C10: for every language id \<open>compute_memory_mapper\<close> returns the default mapper, whose
  default space is \<open>ram\<close>; every \<open>map\<close> call on it returns \<open>ram\<close> as base and an
  address in \<open>ram\<close>, so the base equals the address's space; hence the shared guard of the
  memory paths (\<open>map_base\<close>) and \<open>map_address\<close> request no overlay space: they leave
  the world, and with it the list of requests, as it was.
\<close>

theorem memory_mapper_never_overlays:
  "compute_memory_mapper lang = DEFAULT_MEMORY_MAPPER
   \<and> defaultSpace (compute_memory_mapper lang) = ''ram''
   \<and> DefaultMemoryMapper_map (compute_memory_mapper lang) pid off
        = (''ram'', \<lparr>space = ''ram'', offset = off\<rparr>)
   \<and> fst (DefaultMemoryMapper_map (compute_memory_mapper lang) pid off)
        = space (snd (DefaultMemoryMapper_map (compute_memory_mapper lang) pid off))
   \<and> (STATE_trace w = Some tr \<and> memory_mapper tr = compute_memory_mapper lang \<longrightarrow>
        map_address off w = (Inr (''ram'', \<lparr>space = ''ram'', offset = off\<rparr>), w))
   \<and> map_base (compute_memory_mapper lang) pid base w
        = (case py_int base 0 of
             Inl e \<Rightarrow> (Inl e, w)
           | Inr n \<Rightarrow> (Inr \<lparr>space = ''ram'', offset = n\<rparr>, w))"
  by (simp add: compute_memory_mapper_default DEFAULT_MEMORY_MAPPER_def
        DefaultMemoryMapper_map_def map_address_def map_base_def cbind_def cseq_def cwhen_def
        ret_def lift_def get_world_def get_trace_def split: sum.splits)

theorem memory_mapper_never_overlays_witness:
  "STATE_trace example_world = Some example_trace
   \<and> memory_mapper example_trace = compute_memory_mapper ''x86:LE:64:default''
   \<and> map_address 4096 example_world
        = (Inr (''ram'', \<lparr>space = ''ram'', offset = 4096\<rparr>), example_world)"
proof -
  have h1: "STATE_trace example_world = Some example_trace"
    by (simp add: example_world_def example_world_no_tx_def)
  have h2: "memory_mapper example_trace = compute_memory_mapper ''x86:LE:64:default''"
    by (simp add: example_trace_def)
  from memory_mapper_never_overlays[where lang = "''x86:LE:64:default''" and pid = "PInt 1234"
          and off = 4096 and w = example_world and tr = example_trace and base = "''0x1000''"]
       h1 h2
  have "map_address 4096 example_world
          = (Inr (''ram'', \<lparr>space = ''ram'', offset = 4096\<rparr>), example_world)"
    by blast
  with h1 h2 show ?thesis by blast
qed


section \<open>Register mappers\<close>

lemma to_bytes_length: "to_bytes v n = Inr bs \<Longrightarrow> length bs = n"
  by (auto simp: to_bytes_def split: if_splits)

lemma to_bytes_wide: "256 ^ n \<le> v \<Longrightarrow> to_bytes v n = Inl OverflowError"
  by (simp add: to_bytes_def)

text \<open>
  The conversion in \<open>DefaultRegisterMapper.map_value\<close> is to exactly 8 bytes, so a value
  the x86-64 mapper returns never has more than 32 bytes and its truncation is never
  applied; a value that needs more than 8 bytes is refused.
\<close>

lemma map_value_eight_bytes:
  assumes "map_value Intel_x86_64_RegisterMapper proc nm v = Inr rv"
  shows "length (val rv) = 8"
  using assms
  by (auto simp: DefaultRegisterMapper_map_value_def dest: to_bytes_length
        split: sum.splits option.splits if_splits)

lemma map_value_wide_refused:
  assumes "2 ^ 64 \<le> v"
  shows "map_value Intel_x86_64_RegisterMapper proc nm v = Inl ValueError"
proof -
  have "(256::int) ^ 8 = 2 ^ 64" by simp
  then have "to_bytes v 8 = Inl OverflowError" using assms to_bytes_wide[of 8 v] by simp
  then show ?thesis by (simp add: DefaultRegisterMapper_map_value_def)
qed

text \<open>
  C6: on the x86-64 mapper, \<open>map_name\<close> maps \<open>efl\<close> to \<open>rflags\<close> and \<open>zmm3\<close> to
  \<open>ymm3\<close>. For \<open>zmm3\<close> with the 33-byte value \<open>2 ^ 256\<close>, where the claim expects
  \<open>ymm3\<close> with the low 32 bytes, \<open>map_value\<close> raises \<open>ValueError\<close>; with a value that
  fits 8 bytes it answers \<open>ymm3\<close> and 8 bytes.
\<close>

theorem map_value_zmm_wide_value:
  "map_name Intel_x86_64_RegisterMapper (PInt 1234) (Some ''efl'') = Some ''rflags''
   \<and> map_name Intel_x86_64_RegisterMapper (PInt 1234) (Some ''zmm3'') = Some ''ymm3''
   \<and> map_value Intel_x86_64_RegisterMapper (PInt 1234) (Some ''zmm3'') (2 ^ 256) = Inl ValueError
   \<and> map_value Intel_x86_64_RegisterMapper (PInt 1234) (Some ''zmm3'') 258
        = Inr \<lparr>name = Some ''ymm3'', val = [0, 0, 0, 0, 0, 0, 1, 2]\<rparr>"
  by (simp add: DefaultRegisterMapper_map_value_def to_bytes_def startswith_def upt_rec)

text \<open>
  C7: for a language id that carries exactly one of the endianness tags \<open>:BE:\<close> and
  \<open>:LE:\<close>, as a canonical language id does, \<open>compute_register_mapper\<close> returns the
  registered mapper when the id is a key of the table, and otherwise the big-endian
  default mapper when the id contains \<open>:BE:\<close> and the little-endian default mapper when
  it contains \<open>:LE:\<close>; it does not raise.
\<close>

theorem compute_register_mapper_selection:
  assumes "str_in '':BE:'' lang \<noteq> str_in '':LE:'' lang"
  shows "(\<forall>m. map_of register_mappers lang = Some m \<longrightarrow> compute_register_mapper lang = Inr m)
       \<and> (map_of register_mappers lang = None \<and> str_in '':BE:'' lang
            \<longrightarrow> compute_register_mapper lang = Inr DEFAULT_BE_REGISTER_MAPPER)
       \<and> (map_of register_mappers lang = None \<and> str_in '':LE:'' lang
            \<longrightarrow> compute_register_mapper lang = Inr DEFAULT_LE_REGISTER_MAPPER)
       \<and> (\<exists>m. compute_register_mapper lang = Inr m)"
  using assms by (auto simp: compute_register_mapper_def split: option.splits)

theorem compute_register_mapper_selection_witness:
  "str_in '':BE:'' ''ARM:LE:32:v8'' \<noteq> str_in '':LE:'' ''ARM:LE:32:v8''
   \<and> map_of register_mappers ''ARM:LE:32:v8'' = None
   \<and> compute_register_mapper ''ARM:LE:32:v8'' = Inr DEFAULT_LE_REGISTER_MAPPER
   \<and> map_of register_mappers ''x86:LE:64:default'' = Some Intel_x86_64_RegisterMapper
   \<and> compute_register_mapper ''x86:LE:64:default'' = Inr Intel_x86_64_RegisterMapper"
  using compute_register_mapper_selection[of "''ARM:LE:32:v8''"]
        compute_register_mapper_selection[of "''x86:LE:64:default''"]
  by (simp add: register_mappers_def)

text \<open>
  C9: on the x86-64 mapper \<open>map_name\<close> renames \<open>efl\<close> to \<open>rflags\<close>, and
  \<open>map_name_back\<close> of \<open>rflags\<close> is \<open>eflags\<close>, not \<open>efl\<close>; \<open>map_name\<close> leaves
  \<open>rax\<close> unchanged, and \<open>map_name_back\<close> of \<open>rax\<close> is \<open>None\<close>, not \<open>rax\<close>. The
  default mapper, which the x86-64 mapper extends, returns the name unchanged.
\<close>

theorem map_name_back_not_inverse:
  "map_name Intel_x86_64_RegisterMapper (PInt 1234) (Some ''efl'') = Some ''rflags''
   \<and> map_name_back Intel_x86_64_RegisterMapper (PInt 1234) (Some ''rflags'') = Some ''eflags''
   \<and> map_name Intel_x86_64_RegisterMapper (PInt 1234) (Some ''rax'') = Some ''rax''
   \<and> map_name_back Intel_x86_64_RegisterMapper (PInt 1234) (Some ''rax'') = None
   \<and> map_name_back DEFAULT_LE_REGISTER_MAPPER (PInt 1234) (Some ''rax'') = Some ''rax''"
  by (simp add: startswith_def DEFAULT_LE_REGISTER_MAPPER_def)


section \<open>Synchronization operations\<close>

lemmas run_defs =
  ret_def raise_def lift_def cbind_def cseq_def cwhen_def get_world_def trace_call_def
  get_trace_def engine_call_def emit_def set_current_state_def create_object_def
  proxy_retain_values_def create_overlay_space_def set_value_def insert_obj_def
  create_and_insert_def Let_def

lemmas example_defs =
  example_world_def example_world_no_tx_def example_trace_def example_class_def
  example_range_def selected_session_def selected_process_def selected_thread_def
  iterate_def proc_kw_def str_format_def str_int_def str_nat.simps digit_chars_def

text \<open>
  The regions operation on one range: the object is written and the key passed to the
  retention of the \<open>Memory\<close> container is the key of the object written.
\<close>

lemma put_regions_callback_example:
  "put_regions_callback (MPayload [example_range] ()) example_world =
     (Inr (),
      example_world
        \<lparr>current_state := (current_state example_world)(''0x1000'' \<mapsto> PInt 4096),
         events :=
           [CreateObject ''Sessions[local].Processes[1234].Memory[0x1000]'',
            SetValue ''Sessions[local].Processes[1234].Memory[0x1000]'' ''_offset''
              (Addr \<lparr>space = ''ram'', offset = 4096\<rparr>),
            SetValue ''Sessions[local].Processes[1234].Memory[0x1000]'' ''_range''
              (Range \<lparr>space = ''ram'', offset = 4096\<rparr> 4096),
            SetValue ''Sessions[local].Processes[1234].Memory[0x1000]'' ''Base'' (Val (PStr ''0x1000'')),
            SetValue ''Sessions[local].Processes[1234].Memory[0x1000]'' ''Size'' (Val (PStr ''0x1000'')),
            SetValue ''Sessions[local].Processes[1234].Memory[0x1000]'' ''Protection'' (Val (PStr ''rw-'')),
            SetValue ''Sessions[local].Processes[1234].Memory[0x1000]'' ''_display''
              (Val (PStr ''0x1000:1000 rw- '')),
            Insert ''Sessions[local].Processes[1234].Memory[0x1000]'',
            RetainValues ''Sessions[local].Processes[1234].Memory'' [''[0x1000]'']]\<rparr>)"
  by (simp add: put_regions_callback_def run_defs example_defs map_base_def set_file_def
        region_display_def hex_def format_x_def hex_nat.simps
        compute_memory_mapper_default DEFAULT_MEMORY_MAPPER_def DefaultMemoryMapper_map_def
        py_int_def strip_def is_space_def split_sign_def base_prefix_def drop_underscore_def
        digit_val_def
        REGION_PATTERN_def REGIONS_PATTERN_def REGION_KEY_PATTERN_def PROCESS_PATTERN_def
        PROCESSES_PATH_def PROCESS_KEY_PATTERN_def SESSION_PATTERN_def SESSIONS_PATH_def
        SESSION_KEY_PATTERN_def)

text \<open>
  A loop whose body, on every record, appends the record's key and changes the world by
  a function that keeps the trace, returns the keys of all records in order.
\<close>

lemma for_each_steps:
  assumes "\<And>r keys w. r \<in> set rs \<Longrightarrow> STATE_trace w = Some tr \<Longrightarrow>
              body r keys w = (Inr (keys @ [key_of r]), upd r w)"
    and "\<And>r w. STATE_trace (upd r w) = STATE_trace w"
    and "STATE_trace w = Some tr"
  shows "for_each rs keys body w = (Inr (keys @ map key_of rs), fold upd rs w)"
  using assms
proof (induction rs arbitrary: keys w)
  case Nil
  then show ?case by (simp add: ret_def)
next
  case (Cons r rs)
  have s: "body r keys w = (Inr (keys @ [key_of r]), upd r w)"
    using Cons.prems(1)[of r w keys] Cons.prems(3) by simp
  have t': "STATE_trace (upd r w) = Some tr" using Cons.prems(2,3) by simp
  have "for_each rs (keys @ [key_of r]) body (upd r w)
          = (Inr ((keys @ [key_of r]) @ map key_of rs), fold upd rs (upd r w))"
    by (rule Cons.IH) (use Cons.prems t' in auto)
  with s show ?case by (simp add: cbind_def)
qed

lemma format_region:
  "str_format REGION_PATTERN (proc_kw sid pid @ [(''start'', base)])
     = Inr (region_container sid pid @ ''['' @ base @ '']'')"
  by (simp add: str_format_def proc_kw_def region_container_def
        REGION_PATTERN_def REGIONS_PATTERN_def REGION_KEY_PATTERN_def PROCESS_PATTERN_def
        PROCESSES_PATH_def PROCESS_KEY_PATTERN_def SESSION_PATTERN_def SESSIONS_PATH_def
        SESSION_KEY_PATTERN_def)

lemma format_regions:
  "str_format REGIONS_PATTERN (proc_kw sid pid) = Inr (region_container sid pid)"
  by (simp add: str_format_def proc_kw_def region_container_def
        REGIONS_PATTERN_def PROCESS_PATTERN_def
        PROCESSES_PATH_def PROCESS_KEY_PATTERN_def SESSION_PATTERN_def SESSIONS_PATH_def
        SESSION_KEY_PATTERN_def)

lemma format_region_key:
  "str_format REGION_KEY_PATTERN [(''start'', base)] = Inr (''['' @ base @ '']'')"
  by (simp add: str_format_def REGION_KEY_PATTERN_def)

lemma fold_region_update:
  "STATE_trace (fold (region_update c sp) rs w) = STATE_trace w
   \<and> events (fold (region_update c sp) rs w) = events w @ concat (map (region_events c sp) rs)"
  by (induction rs arbitrary: w) (simp_all add: region_update_def)

text \<open>
  The regions operation, for every reply whose base addresses parse and every world with
  a trace: it returns, and its last request asks the \<open>Memory\<close> container of the process
  to retain exactly the keys of the objects written; it makes no other retention request
  and no overlay request.
\<close>

lemma put_regions_callback_retains_written:
  assumes tr: "STATE_trace w = Some tr"
    and parse: "\<forall>r\<in>set rs. \<exists>n. py_int (r_base r) 0 = Inr n"
  shows "fst (put_regions_callback (MPayload rs d) w) = Inr ()
       \<and> events (snd (put_regions_callback (MPayload rs d) w))
           = events w
             @ concat (map (region_events (region_container (selected_session w) (selected_process w))
                              (defaultSpace (memory_mapper tr))) rs)
             @ [RetainValues (region_container (selected_session w) (selected_process w))
                  (map region_key rs)]"
proof -
  let ?sid = "selected_session w" and ?pid = "selected_process w"
  let ?c = "region_container ?sid ?pid"
  let ?sp = "defaultSpace (memory_mapper tr)"
  let ?body = "\<lambda>r keys.
         let base = r_base r; sz = r_size r; prot = r_protection r in
         cbind (lift (str_format REGION_PATTERN (proc_kw ?sid ?pid @ [(''start'', base)]))) (\<lambda>rpath.
         cseq (create_object rpath)
        (cbind (lift (str_format REGION_KEY_PATTERN [(''start'', base)])) (\<lambda>key.
         cbind (map_base (memory_mapper tr) ?pid base) (\<lambda>base_addr.
         cseq (cseqs
                [set_value rpath ''_offset'' (Addr base_addr),
                 set_value rpath ''_range'' (Range base_addr sz),
                 set_value rpath ''Base'' (Val (PStr base)),
                 set_value rpath ''Size'' (Val (PStr (hex sz))),
                 set_current_state base (PInt sz),
                 set_value rpath ''Protection'' (Val (PStr prot)),
                 set_file rpath (r_file r),
                 set_value rpath ''_display'' (Val (PStr (region_display base sz prot))),
                 insert_obj rpath])
              (ret (keys @ [key]))))))"
  have step: "?body r keys w' = (Inr (keys @ [region_key r]), region_update ?c ?sp r w')"
    if "r \<in> set rs" "STATE_trace w' = Some tr" for r keys w'
  proof -
    from that(1) parse obtain n where n: "py_int (r_base r) 0 = Inr n" by blast
    show ?thesis
      using that(2) n
      by (cases "r_file r")
         (simp_all add: format_region format_region_key region_events_def region_key_def
            region_update_def parsed_base_def map_base_def DefaultMemoryMapper_map_def set_file_def
            ret_def lift_def cbind_def cseq_def cwhen_def trace_call_def engine_call_def emit_def
            create_object_def set_value_def insert_obj_def set_current_state_def Let_def)
  qed
  have loop: "for_each rs [] ?body w = (Inr ([] @ map region_key rs), fold (region_update ?c ?sp) rs w)"
    by (rule for_each_steps[where tr = tr]) (use step tr in \<open>auto simp: region_update_def\<close>)
  show ?thesis
    unfolding put_regions_callback_def
    using loop tr fold_region_update[of ?c ?sp rs w]
    by (simp add: format_regions iterate_def Let_def cbind_def get_world_def get_trace_def
          lift_def proxy_retain_values_def trace_call_def)
qed

lemma format_dependency:
  "str_format DEPENDENCY_PATTERN (mod_kw sid pid cbdata @ [(''name'', nm)])
     = Inr (dependency_container sid pid cbdata @ ''['' @ nm @ '']'')"
  by (simp add: str_format_def mod_kw_def proc_kw_def dependency_container_def
        DEPENDENCY_PATTERN_def DEPENDENCIES_PATTERN_def DEPENDENCY_KEY_PATTERN_def
        MODULE_PATTERN_def MODULES_PATTERN_def MODULE_KEY_PATTERN_def PROCESS_PATTERN_def
        PROCESSES_PATH_def PROCESS_KEY_PATTERN_def SESSION_PATTERN_def SESSIONS_PATH_def
        SESSION_KEY_PATTERN_def)

lemma format_dependencies:
  "str_format DEPENDENCIES_PATTERN (mod_kw sid pid cbdata) = Inr (dependency_container sid pid cbdata)"
  by (simp add: str_format_def mod_kw_def proc_kw_def dependency_container_def
        DEPENDENCIES_PATTERN_def
        MODULE_PATTERN_def MODULES_PATTERN_def MODULE_KEY_PATTERN_def PROCESS_PATTERN_def
        PROCESSES_PATH_def PROCESS_KEY_PATTERN_def SESSION_PATTERN_def SESSIONS_PATH_def
        SESSION_KEY_PATTERN_def)

lemma format_dependency_key:
  "str_format DEPENDENCY_KEY_PATTERN [(''name'', nm)] = Inr (''['' @ nm @ '']'')"
  by (simp add: str_format_def DEPENDENCY_KEY_PATTERN_def)

lemma fold_dependency_events:
  "STATE_trace (fold (\<lambda>r w. w\<lparr>events := events w @ dependency_events c r\<rparr>) rs w) = STATE_trace w
   \<and> current_state (fold (\<lambda>r w. w\<lparr>events := events w @ dependency_events c r\<rparr>) rs w) = current_state w
   \<and> events (fold (\<lambda>r w. w\<lparr>events := events w @ dependency_events c r\<rparr>) rs w)
        = events w @ concat (map (dependency_events c) rs)"
  by (induction rs arbitrary: w) simp_all

text \<open>
  The dependencies operation, for every reply and every world with a trace: it returns,
  having written one object per record, and its last request asks the \<open>Dependencies\<close>
  container of the module to retain exactly the keys of the objects written; it makes no
  other retention request.
\<close>

lemma put_dependencies_callback_retains_written:
  assumes tr: "STATE_trace w = Some tr"
  shows "fst (put_dependencies_callback (MPayload deps modpath) w) = Inr ()
       \<and> events (snd (put_dependencies_callback (MPayload deps modpath) w))
           = events w
             @ concat (map (dependency_events
                              (dependency_container (selected_session w) (selected_process w) (Some modpath)))
                         deps)
             @ [RetainValues (dependency_container (selected_session w) (selected_process w) (Some modpath))
                  (map dependency_key deps)]"
proof -
  let ?c = "dependency_container (selected_session w) (selected_process w) (Some modpath)"
  let ?upd = "\<lambda>r w. w\<lparr>events := events w @ dependency_events ?c r\<rparr>"
  let ?body = "\<lambda>dep keys.
         let nm = d_name dep; ty = d_type dep in
         cbind (lift (str_format DEPENDENCY_PATTERN
                        (mod_kw (selected_session w) (selected_process w) (Some modpath) @ [(''name'', nm)]))) (\<lambda>dpath.
         cseq (create_object dpath)
        (cbind (lift (str_format DEPENDENCY_KEY_PATTERN [(''name'', nm)])) (\<lambda>key.
         cseq (cseqs
                [set_value dpath ''Name'' (Val (PStr nm)),
                 set_value dpath ''Type'' (Val (PStr ty)),
                 set_value dpath ''_display'' (Val (PStr (nm @ '' ''))),
                 insert_obj dpath])
              (ret (keys @ [key])))))"
  have step: "?body r keys w' = (Inr (keys @ [dependency_key r]), ?upd r w')"
    if "STATE_trace w' = Some tr" for r keys w'
    using that
    by (simp add: format_dependency format_dependency_key dependency_events_def dependency_key_def
          ret_def lift_def cbind_def cseq_def trace_call_def engine_call_def emit_def
          create_object_def set_value_def insert_obj_def Let_def)
  have loop: "for_each deps [] ?body w = (Inr ([] @ map dependency_key deps), fold ?upd deps w)"
    by (rule for_each_steps[where tr = tr]) (use step tr in auto)
  show ?thesis
    unfolding put_dependencies_callback_def
    using loop tr fold_dependency_events[of ?c deps w]
    by (simp add: format_dependencies iterate_def Let_def cbind_def get_world_def get_trace_def
          lift_def proxy_retain_values_def trace_call_def)
qed

text \<open>
  C1 fails on the code for three of the operations it names. For one class \<open>Foo\<close> with
  one method \<open>bar\<close>, \<open>put_loaded_classes_callback\<close> writes the class under key
  \<open>[Foo]\<close> and the method under key \<open>[bar]\<close> of the class's \<open>Methods\<close> container,
  then asks that container to retain no key at all, and asks the \<open>Classes\<close> container to
  retain \<open>[Foo]\<close> and \<open>[bar]\<close>. For one heap range \<open>put_heap_callback\<close> raises
  \<open>KeyError\<close> before writing anything, and for one class loader
  \<open>put_class_loaders_callback\<close> raises \<open>NameError\<close> after creating the loader's object;
  neither reaches its retention request.
\<close>

theorem retention_requests_on_failing_replies:
  "events (snd (put_loaded_classes_callback (MPayload [example_class] ()) example_world)) =
     [CreateObject ''Sessions[local].Processes[1234].Classes[Foo]'',
      SetValue ''Sessions[local].Processes[1234].Classes[Foo]'' ''Name'' (Val (PStr ''Foo'')),
      SetValue ''Sessions[local].Processes[1234].Classes[Foo]'' ''Path'' (Val (PStr [])),
      SetValue ''Sessions[local].Processes[1234].Classes[Foo]'' ''_display'' (Val (PStr [])),
      Insert ''Sessions[local].Processes[1234].Classes[Foo]'',
      CreateObject ''Sessions[local].Processes[1234].Classes[Foo].Methods[bar]'',
      Insert ''Sessions[local].Processes[1234].Classes[Foo].Methods[bar]'',
      RetainValues ''Sessions[local].Processes[1234].Classes[Foo].Methods'' [],
      RetainValues ''Sessions[local].Processes[1234].Classes'' [''[Foo]'', ''[bar]'']]
   \<and> put_heap_callback (MPayload [\<lparr>h_base = ''0x1000'', h_size = 16\<rparr>] ()) example_world
        = (Inl (KeyError ''pid''), example_world)
   \<and> put_class_loaders_callback (MPayload [''dalvik.system.PathClassLoader''] ()) example_world
        = (Inl (NameError ''key''),
           example_world
             \<lparr>events :=
                [CreateObject ''Sessions[local].Processes[1234].ClassLoaders[dalvik.system.PathClassLoader]'']\<rparr>)"
proof -
  have classes:
    "events (snd (put_loaded_classes_callback (MPayload [example_class] ()) example_world)) =
     [CreateObject ''Sessions[local].Processes[1234].Classes[Foo]'',
      SetValue ''Sessions[local].Processes[1234].Classes[Foo]'' ''Name'' (Val (PStr ''Foo'')),
      SetValue ''Sessions[local].Processes[1234].Classes[Foo]'' ''Path'' (Val (PStr [])),
      SetValue ''Sessions[local].Processes[1234].Classes[Foo]'' ''_display'' (Val (PStr [])),
      Insert ''Sessions[local].Processes[1234].Classes[Foo]'',
      CreateObject ''Sessions[local].Processes[1234].Classes[Foo].Methods[bar]'',
      Insert ''Sessions[local].Processes[1234].Classes[Foo].Methods[bar]'',
      RetainValues ''Sessions[local].Processes[1234].Classes[Foo].Methods'' [],
      RetainValues ''Sessions[local].Processes[1234].Classes'' [''[Foo]'', ''[bar]'']]"
    by (simp add: put_loaded_classes_callback_def run_defs example_defs class_key_def or_empty_def
          CLASS_PATTERN_def CLASSES_PATTERN_def CLASS_KEY_PATTERN_def METHODS_PATTERN_def
          METHOD_PATTERN_def METHOD_KEY_PATTERN_def PROCESS_PATTERN_def PROCESSES_PATH_def
          PROCESS_KEY_PATTERN_def SESSION_PATTERN_def SESSIONS_PATH_def SESSION_KEY_PATTERN_def)
  have heap:
    "put_heap_callback (MPayload [\<lparr>h_base = ''0x1000'', h_size = 16\<rparr>] ()) example_world
       = (Inl (KeyError ''pid''), example_world)"
    by (simp add: put_heap_callback_def run_defs example_defs
          HEAP_REGION_PATTERN_def HEAP_PATTERN_def HEAP_REGION_KEY_PATTERN_def
          PROCESS_PATTERN_def PROCESSES_PATH_def PROCESS_KEY_PATTERN_def SESSION_PATTERN_def
          SESSIONS_PATH_def SESSION_KEY_PATTERN_def)
  have loaders:
    "put_class_loaders_callback (MPayload [''dalvik.system.PathClassLoader''] ()) example_world
       = (Inl (NameError ''key''),
          example_world
            \<lparr>events :=
               [CreateObject ''Sessions[local].Processes[1234].ClassLoaders[dalvik.system.PathClassLoader]'']\<rparr>)"
    by (simp add: put_class_loaders_callback_def run_defs example_defs
          LOADER_PATTERN_def LOADERS_PATTERN_def LOADER_KEY_PATTERN_def
          PROCESS_PATTERN_def PROCESSES_PATH_def PROCESS_KEY_PATTERN_def SESSION_PATTERN_def
          SESSIONS_PATH_def SESSION_KEY_PATTERN_def)
  from classes heap loaders show ?thesis by (simp only: simp_thms)
qed


section \<open>Transaction discipline\<close>

lemma require_tx_none:
  "STATE_tx w = None \<Longrightarrow> cbind require_tx f w = (Inl (RuntimeError ''No transaction''), w)"
  by (simp add: cbind_def require_tx_def)

text \<open>
  With a transaction open the regions command does run: it opens a batch, sends the
  script, hands the reply to the callback and closes the batch.
\<close>

lemma ghidra_trace_put_regions_example:
  "fst (ghidra_trace_put_regions (MPayload [example_range] ()) example_world) = Inr ()
   \<and> length (events (snd (ghidra_trace_put_regions (MPayload [example_range] ()) example_world))) = 12
   \<and> take 2 (events (snd (ghidra_trace_put_regions (MPayload [example_range] ()) example_world)))
        = [StartBatch,
           RunScript (''var result = '' @ quote @ quote @ ''; ''
                      @ ''result = Process.enumerateRanges('' @ quote @ ''---'' @ quote @ '');''
                      @ ''var msg = { key: '' @ quote @ ''list_ranges'' @ quote @ '', value: result};''
                      @ ''send(JSON.stringify(msg));'')]
   \<and> last (events (snd (ghidra_trace_put_regions (MPayload [example_range] ()) example_world)))
        = EndBatch"
proof -
  let ?w1 = "example_world\<lparr>events := [StartBatch,
           RunScript (''var result = '' @ quote @ quote @ ''; ''
                      @ ''result = Process.enumerateRanges('' @ quote @ ''---'' @ quote @ '');''
                      @ ''var msg = { key: '' @ quote @ ''list_ranges'' @ quote @ '', value: result};''
                      @ ''send(JSON.stringify(msg));'')]\<rparr>"
  have cb: "put_regions_callback (MPayload [example_range] ()) ?w1 =
     (Inr (),
      ?w1\<lparr>current_state := (current_state example_world)(''0x1000'' \<mapsto> PInt 4096),
         events := events ?w1 @
           [CreateObject ''Sessions[local].Processes[1234].Memory[0x1000]'',
            SetValue ''Sessions[local].Processes[1234].Memory[0x1000]'' ''_offset''
              (Addr \<lparr>space = ''ram'', offset = 4096\<rparr>),
            SetValue ''Sessions[local].Processes[1234].Memory[0x1000]'' ''_range''
              (Range \<lparr>space = ''ram'', offset = 4096\<rparr> 4096),
            SetValue ''Sessions[local].Processes[1234].Memory[0x1000]'' ''Base'' (Val (PStr ''0x1000'')),
            SetValue ''Sessions[local].Processes[1234].Memory[0x1000]'' ''Size'' (Val (PStr ''0x1000'')),
            SetValue ''Sessions[local].Processes[1234].Memory[0x1000]'' ''Protection'' (Val (PStr ''rw-'')),
            SetValue ''Sessions[local].Processes[1234].Memory[0x1000]'' ''_display''
              (Val (PStr ''0x1000:1000 rw- '')),
            Insert ''Sessions[local].Processes[1234].Memory[0x1000]'',
            RetainValues ''Sessions[local].Processes[1234].Memory'' [''[0x1000]'']]\<rparr>)"
    by (simp add: put_regions_callback_def run_defs example_defs map_base_def set_file_def
          region_display_def hex_def format_x_def hex_nat.simps
          compute_memory_mapper_default DEFAULT_MEMORY_MAPPER_def DefaultMemoryMapper_map_def
          py_int_def strip_def is_space_def split_sign_def base_prefix_def drop_underscore_def
          digit_val_def
          REGION_PATTERN_def REGIONS_PATTERN_def REGION_KEY_PATTERN_def PROCESS_PATTERN_def
          PROCESSES_PATH_def PROCESS_KEY_PATTERN_def SESSION_PATTERN_def SESSIONS_PATH_def
          SESSION_KEY_PATTERN_def)
  have w1: "example_world\<lparr>events := events example_world @ [StartBatch]\<rparr>
              \<lparr>events := events (example_world\<lparr>events := events example_world @ [StartBatch]\<rparr>) @
                 [RunScript (''var result = '' @ quote @ quote @ ''; ''
                      @ ''result = Process.enumerateRanges('' @ quote @ ''---'' @ quote @ '');''
                      @ ''var msg = { key: '' @ quote @ ''list_ranges'' @ quote @ '', value: result};''
                      @ ''send(JSON.stringify(msg));'')]\<rparr> = ?w1"
    by (simp add: example_defs)
  show ?thesis
    unfolding ghidra_trace_put_regions_def put_regions_def run_script_def batch_def
      with_target_def deliver_def
    using cb w1
    by (simp add: cbind_def cseq_def require_tx_def engine_call_def Let_def
          example_world_def example_world_no_tx_def selected_process_def)
qed

text \<open>
  C8: when no transaction is open, every trace-mutating \<open>put\<close> command raises
  \<open>RuntimeError\<close> with the message \<open>No transaction\<close> and leaves the world as it was:
  no query has been put to the target, no request sent to the trace, no module-level
  state changed. This holds whatever the arguments, the replies the target would give,
  and the rest of the state are.
\<close>

theorem put_commands_require_tx:
  assumes "STATE_tx w = None"
  shows "ghidra_trace_putmem address len pages mem_reply w = (Inl (RuntimeError ''No transaction''), w)
       \<and> ghidra_trace_putmem_state start_arg len state pages w = (Inl (RuntimeError ''No transaction''), w)
       \<and> ghidra_trace_putreg threads_reply w = (Inl (RuntimeError ''No transaction''), w)
       \<and> ghidra_trace_put_sessions devices w = (Inl (RuntimeError ''No transaction''), w)
       \<and> ghidra_trace_put_processes w = (Inl (RuntimeError ''No transaction''), w)
       \<and> ghidra_trace_put_available procs w = (Inl (RuntimeError ''No transaction''), w)
       \<and> ghidra_trace_put_applications procs w = (Inl (RuntimeError ''No transaction''), w)
       \<and> ghidra_trace_put_session_attributes attributes_reply w = (Inl (RuntimeError ''No transaction''), w)
       \<and> ghidra_trace_put_environment parameters w = (Inl (RuntimeError ''No transaction''), w)
       \<and> ghidra_trace_put_regions ranges_reply w = (Inl (RuntimeError ''No transaction''), w)
       \<and> ghidra_trace_put_kregions kranges_reply w = (Inl (RuntimeError ''No transaction''), w)
       \<and> ghidra_trace_put_heap heap_reply w = (Inl (RuntimeError ''No transaction''), w)
       \<and> ghidra_trace_put_modules modules_reply w = (Inl (RuntimeError ''No transaction''), w)
       \<and> ghidra_trace_put_kmodules kmodules_reply w = (Inl (RuntimeError ''No transaction''), w)
       \<and> ghidra_trace_put_sections modpath addr sections_reply w = (Inl (RuntimeError ''No transaction''), w)
       \<and> ghidra_trace_put_imports modpath addr imports_reply w = (Inl (RuntimeError ''No transaction''), w)
       \<and> ghidra_trace_put_exports modpath addr exports_reply w = (Inl (RuntimeError ''No transaction''), w)
       \<and> ghidra_trace_put_symbols modpath addr symbols_reply w = (Inl (RuntimeError ''No transaction''), w)
       \<and> ghidra_trace_put_dependencies modpath addr dependencies_reply w
            = (Inl (RuntimeError ''No transaction''), w)
       \<and> ghidra_trace_put_threads threads_reply' w = (Inl (RuntimeError ''No transaction''), w)
       \<and> ghidra_trace_put_frames frames_reply w = (Inl (RuntimeError ''No transaction''), w)
       \<and> ghidra_trace_put_loaded_classes_objc classes_reply w = (Inl (RuntimeError ''No transaction''), w)
       \<and> ghidra_trace_put_loaded_classes_java classes_reply' w = (Inl (RuntimeError ''No transaction''), w)
       \<and> ghidra_trace_put_class_loaders_java loaders_reply w = (Inl (RuntimeError ''No transaction''), w)
       \<and> ghidra_trace_put_all replies w = (Inl (RuntimeError ''No transaction''), w)"
  using assms
  by (simp add: require_tx_none ghidra_trace_putmem_def ghidra_trace_putmem_state_def
        ghidra_trace_putreg_def ghidra_trace_put_sessions_def ghidra_trace_put_processes_def
        ghidra_trace_put_available_def ghidra_trace_put_applications_def
        ghidra_trace_put_session_attributes_def ghidra_trace_put_environment_def
        ghidra_trace_put_regions_def ghidra_trace_put_kregions_def ghidra_trace_put_heap_def
        ghidra_trace_put_modules_def ghidra_trace_put_kmodules_def ghidra_trace_put_sections_def
        ghidra_trace_put_imports_def ghidra_trace_put_exports_def ghidra_trace_put_symbols_def
        ghidra_trace_put_dependencies_def ghidra_trace_put_threads_def
        ghidra_trace_put_frames_def ghidra_trace_put_loaded_classes_objc_def
        ghidra_trace_put_loaded_classes_java_def ghidra_trace_put_class_loaders_java_def
        ghidra_trace_put_all_def)

theorem put_commands_require_tx_witness:
  "STATE_tx example_world_no_tx = None
   \<and> ghidra_trace_put_regions (MPayload [example_range] ()) example_world_no_tx
        = (Inl (RuntimeError ''No transaction''), example_world_no_tx)
   \<and> ghidra_trace_putmem (Some (ArgStr ''0x1000'')) (ArgInt 16) True MNone example_world_no_tx
        = (Inl (RuntimeError ''No transaction''), example_world_no_tx)"
proof -
  have h: "STATE_tx example_world_no_tx = None"
    by (simp add: example_world_no_tx_def)
  note t = put_commands_require_tx[OF h]
  have m: "ghidra_trace_putmem (Some (ArgStr ''0x1000'')) (ArgInt 16) True MNone example_world_no_tx
          = (Inl (RuntimeError ''No transaction''), example_world_no_tx)"
    by (rule t[THEN conjunct1])
  have r: "ghidra_trace_put_regions (MPayload [example_range] ()) example_world_no_tx
          = (Inl (RuntimeError ''No transaction''), example_world_no_tx)"
    by (rule t[THEN conjunct2, THEN conjunct2, THEN conjunct2, THEN conjunct2, THEN conjunct2,
               THEN conjunct2, THEN conjunct2, THEN conjunct2, THEN conjunct2, THEN conjunct1])
  from r m h show ?thesis by blast
qed

end
